theory Spec2Isabelle
  imports Main "HOL-Library.Multiset"
begin

section \<open>Values, exceptions and configuration of the file service\<close>

text \<open>
  The service of \<^verbatim>\<open>src/main.py\<close> is embedded as pure functions over an explicit
  \<open>world\<close>: the upload directory, the table \<^verbatim>\<open>uploaded_files\<close>, the database
  server as seen by \<^verbatim>\<open>mysql.connector.connect\<close>, the clock and the source of
  \<^verbatim>\<open>uuid.uuid4()\<close>. Every \<^verbatim>\<open>raise\<close> is a value \<open>Inl e\<close>, every
  \<^verbatim>\<open>try/except\<close> a case distinction on it.

  File contents are byte lists (\<^verbatim>\<open>len(file_content)\<close> counts bytes); Python
  strings are lists of characters.
\<close>

type_synonym bytes = "char list"
type_synonym path = string

text \<open>
  The exceptions the handlers raise and catch. The message of an exception is kept
  as a template (\<open>msg\<close>): the literal of the source, or the f-string it is built by,
  with \<open>Str_of e\<close> for \<^verbatim>\<open>str(e)\<close>.
\<close>

datatype exn =
    HTTPException nat msg
  | Error string
  | Exception msg
  | OSError string
  | LibraryError string
and msg =
    Database_connection_failed
  | File_not_found
  | Failed_to_retrieve_files
  | Failed_to_retrieve_file_content
  | Failed_to_delete_file
  | File_is_too_large string
  | File_type_not_supported string
  | Failed_to_store_file_info exn
  | Str_of exn

definition MAX_FILE_SIZE :: int where
  "MAX_FILE_SIZE = 10 * 1024 * 1024"

definition ALLOWED_EXTENSIONS :: "string set" where
  "ALLOWED_EXTENSIONS = {''.pdf'', ''.txt'', ''.docx'', ''.csv'', ''.json'', ''.md''}"

definition UPLOAD_DIR :: path where
  "UPLOAD_DIR = ''/app/uploads''"

section \<open>The world\<close>

text \<open>
  A connection object as the code uses it: \<^verbatim>\<open>is_connected()\<close>, and whether a
  statement executed on its cursor succeeds (\<open>executes_ok\<close>) or raises
  \<^verbatim>\<open>mysql.connector.Error\<close>. \<^verbatim>\<open>mysql.connector.connect\<close> returns a connection
  or raises an \<^verbatim>\<open>Error\<close> (the base class of everything the connector raises).
\<close>

datatype connection = Connection (is_connected: bool) (executes_ok: bool)

datatype connect_result = Returns connection | Raises string

text \<open>One row of \<^verbatim>\<open>uploaded_files\<close>, with the columns the statements name.\<close>

record row =
  row_id :: int
  row_session_id :: string
  row_filename :: string
  row_original_name :: string
  row_file_type :: string
  row_file_size :: int
  row_file_path :: path
  row_extracted_text :: "string option"
  row_upload_date :: nat

record world =
  fs :: "path \<rightharpoonup> bytes"
  table :: "row list"
  next_id :: int
  clock :: nat
  server :: "nat \<Rightarrow> connect_result"
  dials :: nat
  sleeps :: "nat list"
  uuids :: "nat \<Rightarrow> string"
  drawn :: nat

text \<open>
  \<open>server w n\<close> is what the \<open>n\<close>-th call of \<^verbatim>\<open>mysql.connector.connect\<close> meets,
  \<open>dials\<close> counts the calls made; \<open>sleeps\<close> is the trace of \<^verbatim>\<open>time.sleep\<close>
  arguments, which also advance the clock; \<open>uuids w n\<close> is the \<open>n\<close>-th value of
  \<^verbatim>\<open>uuid.uuid4()\<close>. The file system is taken as reliable: \<^verbatim>\<open>open(..., "wb")\<close> in
  the upload directory and \<^verbatim>\<open>os.remove\<close> of an existing path succeed.
\<close>

definition connect :: "world \<Rightarrow> connect_result \<times> world" where
  "connect w = (server w (dials w), w\<lparr>dials := Suc (dials w)\<rparr>)"

definition sleep :: "nat \<Rightarrow> world \<Rightarrow> world" where
  "sleep n w = w\<lparr>sleeps := sleeps w @ [n], clock := clock w + n\<rparr>"

section \<open>Database connection with retry logic\<close>

text \<open>
  \<^verbatim>\<open>get_db_connection\<close> (lines 60-80). The \<^verbatim>\<open>for attempt in range(max_retries)\<close>
  loop is a recursion over the list of attempts still to run. A connection that is
  returned but not connected falls through to the next attempt (no
  \<^verbatim>\<open>sleep\<close>); when the loop runs out, the function ends without a
  \<^verbatim>\<open>return\<close>, which is \<^verbatim>\<open>None\<close>.
\<close>

fun connect_attempts :: "int \<Rightarrow> nat list \<Rightarrow> world \<Rightarrow> connection option \<times> world" where
  "connect_attempts max_retries [] w = (None, w)"
| "connect_attempts max_retries (attempt # rest) w =
     (case connect w of
        (Returns connection, w1) \<Rightarrow>
          if is_connected connection then (Some connection, w1)
          else connect_attempts max_retries rest w1
      | (Raises e, w1) \<Rightarrow>
          if int attempt < max_retries - 1
          then connect_attempts max_retries rest (sleep (2 ^ attempt) w1)
          else (None, w1))"

definition get_db_connection :: "int \<Rightarrow> world \<Rightarrow> connection option \<times> world" where
  "get_db_connection max_retries w = connect_attempts max_retries [0..<nat max_retries] w"

text \<open>Vocabulary for statements about the retry loop.\<close>

definition outcome :: "world \<Rightarrow> nat \<Rightarrow> connect_result" where
  "outcome w i = server w (dials w + i)"

definition attempt_failed :: "connect_result \<Rightarrow> bool" where
  "attempt_failed r = (case r of Returns c \<Rightarrow> \<not> is_connected c | Raises e \<Rightarrow> True)"

definition attempt_raised :: "connect_result \<Rightarrow> bool" where
  "attempt_raised r = (case r of Returns c \<Rightarrow> False | Raises e \<Rightarrow> True)"

definition backoff :: "world \<Rightarrow> nat \<Rightarrow> nat \<Rightarrow> nat list" where
  "backoff w a k = map (\<lambda>i. 2 ^ (a + i)) (filter (\<lambda>i. attempt_raised (outcome w i)) [0..<k])"

definition after_attempts :: "world \<Rightarrow> nat \<Rightarrow> nat \<Rightarrow> nat \<Rightarrow> world" where
  "after_attempts w a k n =
     w\<lparr>dials := dials w + n, sleeps := sleeps w @ backoff w a k,
       clock := clock w + sum_list (backoff w a k)\<rparr>"

section \<open>File names and extensions\<close>

text \<open>
  \<^verbatim>\<open>Path(file.filename).suffix.lower()\<close> (line 156), for a POSIX path. The name of
  a path is its last component, empty components and \<^verbatim>\<open>.\<close> dropped; the suffix
  follows pathlib: with \<^verbatim>\<open>i = name.rfind('.')\<close>, it is \<^verbatim>\<open>name[i:]\<close> when
  \<^verbatim>\<open>0 < i < len(name) - 1\<close> and the empty string otherwise. \<^verbatim>\<open>lower\<close> is given
  on ASCII letters, the only characters whose lower case is a letter of a supported
  extension.
\<close>

fun split :: "char \<Rightarrow> string \<Rightarrow> string list" where
  "split sep [] = [[]]"
| "split sep (c # cs) =
     (if c = sep then [] # split sep cs
      else (case split sep cs of [] \<Rightarrow> [[c]] | x # xs \<Rightarrow> (c # x) # xs))"

definition path_name :: "string \<Rightarrow> string" where
  "path_name p =
     (case filter (\<lambda>part. part \<noteq> [] \<and> part \<noteq> ''.'') (split CHR ''/'' p) of
        [] \<Rightarrow> []
      | part # parts \<Rightarrow> last (part # parts))"

fun rfind :: "char \<Rightarrow> string \<Rightarrow> nat option" where
  "rfind c [] = None"
| "rfind c (x # xs) =
     (case rfind c xs of
        Some i \<Rightarrow> Some (Suc i)
      | None \<Rightarrow> if x = c then Some 0 else None)"

definition suffix :: "string \<Rightarrow> string" where
  "suffix p =
     (let name = path_name p in
      case rfind CHR ''.'' name of
        None \<Rightarrow> []
      | Some i \<Rightarrow> if 0 < i \<and> i < length name - 1 then drop i name else [])"

definition lower_char :: "char \<Rightarrow> char" where
  "lower_char c =
     (let n = (of_char c :: nat) in if 65 \<le> n \<and> n \<le> 90 then char_of (n + 32) else c)"

definition lower :: "string \<Rightarrow> string" where
  "lower s = map lower_char s"

section \<open>Text extraction\<close>

text \<open>
  The libraries \<^verbatim>\<open>extract_text_from_file\<close> calls are parameters (\<open>runtime\<close>):
  \<open>PyPDF2\<close> and \<open>docx\<close> are \<open>None\<close> when the import at lines 17-25 failed, and
  otherwise give the page texts or the paragraph texts of a file, or raise;
  \<open>csv_reader\<close> gives the rows of a text, \<open>json_load\<close> the parsed value or an
  exception, \<open>json_dumps v indent\<close> the serialisation, and \<open>decode_utf8_ignore\<close> is
  reading in text mode with \<^verbatim>\<open>encoding='utf-8', errors='ignore'\<close>.
\<close>

datatype json =
    JNull
  | JBool bool
  | JInt int
  | JFloat string
  | JStr string
  | JArr "json list"
  | JObj "(string \<times> json) list"

record runtime =
  PyPDF2 :: "(bytes \<Rightarrow> exn + string list) option"
  docx :: "(bytes \<Rightarrow> exn + string list) option"
  csv_reader :: "string \<Rightarrow> exn + string list list"
  json_load :: "string \<Rightarrow> exn + json"
  json_dumps :: "json \<Rightarrow> nat \<Rightarrow> string"
  decode_utf8_ignore :: "bytes \<Rightarrow> string"

definition try_except :: "exn + 'a \<Rightarrow> (exn \<Rightarrow> exn + 'a) \<Rightarrow> exn + 'a" where
  "try_except body handler = (case body of Inl e \<Rightarrow> handler e | Inr v \<Rightarrow> Inr v)"

definition open_read :: "(path \<rightharpoonup> bytes) \<Rightarrow> path \<Rightarrow> exn + bytes" where
  "open_read files p =
     (case files p of None \<Rightarrow> Inl (OSError ''No such file or directory'') | Some b \<Rightarrow> Inr b)"

definition newline :: string where
  "newline = [CHR 0x0A]"

fun join :: "string \<Rightarrow> string list \<Rightarrow> string" where
  "join sep [] = []"
| "join sep [x] = x"
| "join sep (x # y # ys) = x @ sep @ join sep (y # ys)"

definition extract_text_from_file ::
  "runtime \<Rightarrow> (path \<rightharpoonup> bytes) \<Rightarrow> path \<Rightarrow> string \<Rightarrow> exn + string" where
  "extract_text_from_file rt files file_path file_ext =
     try_except
       (if file_ext = ''.txt'' \<or> file_ext = ''.md'' then
          (case open_read files file_path of
             Inl e \<Rightarrow> Inl e
           | Inr b \<Rightarrow> Inr (decode_utf8_ignore rt b))
        else if file_ext = ''.pdf'' \<and> PyPDF2 rt \<noteq> None then
          try_except
            (case open_read files file_path of
               Inl e \<Rightarrow> Inl e
             | Inr b \<Rightarrow>
                 (case the (PyPDF2 rt) b of
                    Inl e \<Rightarrow> Inl e
                  | Inr pages \<Rightarrow> Inr (concat (map (\<lambda>page. page @ newline) pages))))
            (\<lambda>e. Inr ''PDF content could not be extracted'')
        else if file_ext = ''.docx'' \<and> docx rt \<noteq> None then
          try_except
            (case open_read files file_path of
               Inl e \<Rightarrow> Inl e
             | Inr b \<Rightarrow>
                 (case the (docx rt) b of
                    Inl e \<Rightarrow> Inl e
                  | Inr paragraphs \<Rightarrow>
                      Inr (concat (map (\<lambda>paragraph. paragraph @ newline) paragraphs))))
            (\<lambda>e. Inr ''DOCX content could not be extracted'')
        else if file_ext = ''.csv'' then
          try_except
            (case open_read files file_path of
               Inl e \<Rightarrow> Inl e
             | Inr b \<Rightarrow>
                 (case csv_reader rt (decode_utf8_ignore rt b) of
                    Inl e \<Rightarrow> Inl e
                  | Inr rows \<Rightarrow>
                      Inr (concat (map (\<lambda>row. join '', '' row @ newline) rows))))
            (\<lambda>e. Inr ''CSV content could not be extracted'')
        else if file_ext = ''.json'' then
          try_except
            (case open_read files file_path of
               Inl e \<Rightarrow> Inl e
             | Inr b \<Rightarrow>
                 (case json_load rt (decode_utf8_ignore rt b) of
                    Inl e \<Rightarrow> Inl e
                  | Inr data \<Rightarrow> Inr (json_dumps rt data 2)))
            (\<lambda>e. Inr ''JSON content could not be extracted'')
        else Inr ''File type not supported for text extraction'')
       (\<lambda>e. Inr ''Text extraction failed'')"

section \<open>Storing a file's record\<close>

text \<open>
  Modelled from the spec: the schema of \<^verbatim>\<open>uploaded_files\<close> is not in the sources.
  The \<^verbatim>\<open>INSERT\<close> of \<^verbatim>\<open>store_file_info\<close> names seven columns; \<open>id\<close> is "assigned
  at insert time, never reused" (here a counter) and \<open>upload_date\<close> is "assigned at
  insert time" (here the clock). The connection is opened with
  \<^verbatim>\<open>autocommit=True\<close>, so an executed statement is in the table at once.
\<close>

definition insert_row ::
  "string \<Rightarrow> string \<Rightarrow> string \<Rightarrow> string \<Rightarrow> int \<Rightarrow> path \<Rightarrow> string option \<Rightarrow> world
     \<Rightarrow> int \<times> world" where
  "insert_row session_id filename original_name file_type file_size file_path extracted_text w =
     (next_id w,
      w\<lparr>table := table w @
           [\<lparr>row_id = next_id w, row_session_id = session_id, row_filename = filename,
             row_original_name = original_name, row_file_type = file_type,
             row_file_size = file_size, row_file_path = file_path,
             row_extracted_text = extracted_text, row_upload_date = clock w\<rparr>],
         next_id := next_id w + 1\<rparr>)"

record file_info =
  info_id :: int
  info_filename :: string
  info_original_name :: string
  info_file_type :: string
  info_file_size :: int
  info_has_text :: bool
  info_file_path :: path

definition store_file_info ::
  "string \<Rightarrow> string \<Rightarrow> string \<Rightarrow> string \<Rightarrow> int \<Rightarrow> path \<Rightarrow> string \<Rightarrow> world
     \<Rightarrow> (exn + file_info) \<times> world" where
  "store_file_info session_id filename original_name file_type file_size file_path extracted_text w =
     (case get_db_connection 5 w of
        (None, w1) \<Rightarrow>
          (Inl (Exception (Failed_to_store_file_info (Exception Database_connection_failed))), w1)
      | (Some connection, w1) \<Rightarrow>
          if executes_ok connection then
            (case insert_row session_id filename original_name file_type file_size file_path
                    (Some extracted_text) w1 of
               (file_id, w2) \<Rightarrow>
                 (Inr \<lparr>info_id = file_id, info_filename = filename,
                        info_original_name = original_name, info_file_type = file_type,
                        info_file_size = file_size, info_has_text = (extracted_text \<noteq> []),
                        info_file_path = file_path\<rparr>, w2))
          else
            (Inl (Exception (Failed_to_store_file_info (Error ''execute failed''))), w1))"

section \<open>Uploading a batch\<close>

record upload_file =
  filename :: string
  content :: bytes

definition uuid4 :: "world \<Rightarrow> string \<times> world" where
  "uuid4 w = (uuids w (drawn w), w\<lparr>drawn := Suc (drawn w)\<rparr>)"

definition upload_path :: "string \<Rightarrow> path" where
  "upload_path unique_filename = UPLOAD_DIR @ ''/'' @ unique_filename"

text \<open>
  The body of the \<^verbatim>\<open>for file in files\<close> loop of \<^verbatim>\<open>upload_files\<close> (lines
  146-186). The result is the exception that left the loop (if any), the list
  \<^verbatim>\<open>uploaded_files\<close> at that moment and the world.
\<close>

fun upload_loop ::
  "runtime \<Rightarrow> string \<Rightarrow> upload_file list \<Rightarrow> file_info list \<Rightarrow> world
     \<Rightarrow> exn option \<times> file_info list \<times> world" where
  "upload_loop rt session_id [] uploaded_files w = (None, uploaded_files, w)"
| "upload_loop rt session_id (file # files) uploaded_files w =
     (if int (length (content file)) > MAX_FILE_SIZE then
        (Some (HTTPException 400 (File_is_too_large (filename file))), uploaded_files, w)
      else
        let file_ext = lower (suffix (filename file)) in
        if file_ext \<notin> ALLOWED_EXTENSIONS then
          (Some (HTTPException 400 (File_type_not_supported file_ext)), uploaded_files, w)
        else
          (case uuid4 w of
             (u, w1) \<Rightarrow>
               let unique_filename = u @ file_ext;
                   file_path = upload_path unique_filename;
                   w2 = w1\<lparr>fs := (fs w1)(file_path \<mapsto> content file)\<rparr>
               in
               (case extract_text_from_file rt (fs w2) file_path file_ext of
                  Inl e \<Rightarrow> (Some e, uploaded_files, w2)
                | Inr extracted_text \<Rightarrow>
                    (case store_file_info session_id unique_filename (filename file) file_ext
                            (int (length (content file))) file_path extracted_text w2 of
                       (Inl e, w3) \<Rightarrow> (Some e, uploaded_files, w3)
                     | (Inr info, w3) \<Rightarrow>
                         upload_loop rt session_id files (uploaded_files @ [info]) w3))))"

text \<open>
  The cleanup of the \<^verbatim>\<open>except\<close> branch (lines 196-202): for every entry of
  \<^verbatim>\<open>uploaded_files\<close>, the file at its \<^verbatim>\<open>file_path\<close> is removed if the path is
  not empty and exists.
\<close>

fun cleanup :: "file_info list \<Rightarrow> (path \<rightharpoonup> bytes) \<Rightarrow> (path \<rightharpoonup> bytes)" where
  "cleanup [] files = files"
| "cleanup (info # infos) files =
     cleanup infos
       (if info_file_path info \<noteq> [] \<and> files (info_file_path info) \<noteq> None
        then files(info_file_path info := None) else files)"

text \<open>
  \<^verbatim>\<open>upload_files\<close>: the response is the list \<^verbatim>\<open>files\<close> of the
  \<^verbatim>\<open>UploadResponse\<close> (its message only counts them); any exception of the loop,
  the \<^verbatim>\<open>HTTPException\<close>s of the validation included, is caught, the cleanup runs
  and a 500 is raised.
\<close>

definition upload_files ::
  "runtime \<Rightarrow> upload_file list \<Rightarrow> string \<Rightarrow> world \<Rightarrow> (exn + file_info list) \<times> world" where
  "upload_files rt files session_id w =
     (case upload_loop rt session_id files [] w of
        (None, uploaded_files, w1) \<Rightarrow> (Inr uploaded_files, w1)
      | (Some e, uploaded_files, w1) \<Rightarrow>
          (Inl (HTTPException 500 (Str_of e)), w1\<lparr>fs := cleanup uploaded_files (fs w1)\<rparr>))"

text \<open>
  Vocabulary for statements about a batch: \<open>row_of session_id file r\<close> says that
  \<open>r\<close> is a row the loop writes for \<open>file\<close>, and \<open>summary_of r info\<close> that
  \<open>info\<close> is the entry of \<^verbatim>\<open>uploaded_files\<close> returned for the row \<open>r\<close>.
\<close>

definition row_of :: "string \<Rightarrow> upload_file \<Rightarrow> row \<Rightarrow> bool" where
  "row_of session_id file r =
     (row_session_id r = session_id
      \<and> row_original_name r = filename file
      \<and> row_file_type r = lower (suffix (filename file))
      \<and> row_file_size r = int (length (content file))
      \<and> row_file_path r = upload_path (row_filename r)
      \<and> int (length (content file)) \<le> MAX_FILE_SIZE
      \<and> lower (suffix (filename file)) \<in> ALLOWED_EXTENSIONS)"

definition summary_of :: "row \<Rightarrow> file_info \<Rightarrow> bool" where
  "summary_of r info =
     (info_id info = row_id r \<and> info_filename info = row_filename r
      \<and> info_original_name info = row_original_name r
      \<and> info_file_type info = row_file_type r
      \<and> info_file_size info = row_file_size r
      \<and> info_file_path info = row_file_path r)"

section \<open>Listing, reading and deleting\<close>

text \<open>
  The \<^verbatim>\<open>SELECT ... WHERE session_id = %s ORDER BY upload_date DESC\<close> of
  \<^verbatim>\<open>get_files\<close>. Rows with equal dates come in an order the database chooses;
  here the later insert comes first.
\<close>

definition select_by_session :: "string \<Rightarrow> row list \<Rightarrow> row list" where
  "select_by_session session_id rows =
     rev (sort_key row_upload_date (filter (\<lambda>r. row_session_id r = session_id) rows))"

record listed_file =
  listed_id :: int
  listed_filename :: string
  listed_content :: string
  listed_content_type :: string
  listed_file_size :: int
  listed_upload_date :: nat
  listed_has_text :: bool

definition truthy :: "string option \<Rightarrow> bool" where
  "truthy t = (case t of None \<Rightarrow> False | Some s \<Rightarrow> s \<noteq> [])"

definition listed :: "row \<Rightarrow> listed_file" where
  "listed r =
     \<lparr>listed_id = row_id r, listed_filename = row_original_name r,
      listed_content = (if truthy (row_extracted_text r) then the (row_extracted_text r)
                        else ''No content available''),
      listed_content_type = row_file_type r, listed_file_size = row_file_size r,
      listed_upload_date = row_upload_date r,
      listed_has_text = truthy (row_extracted_text r)\<rparr>"

definition get_files_body :: "string \<Rightarrow> world \<Rightarrow> (exn + listed_file list) \<times> world" where
  "get_files_body session_id w =
     (case get_db_connection 5 w of
        (None, w1) \<Rightarrow> (Inl (HTTPException 500 Database_connection_failed), w1)
      | (Some connection, w1) \<Rightarrow>
          if executes_ok connection
          then (Inr (map listed (select_by_session session_id (table w1))), w1)
          else (Inl (Error ''execute failed''), w1))"

definition get_files :: "string \<Rightarrow> world \<Rightarrow> (exn + listed_file list) \<times> world" where
  "get_files session_id w =
     (case get_files_body session_id w of
        (r, w1) \<Rightarrow> (try_except r (\<lambda>e. Inl (HTTPException 500 Failed_to_retrieve_files)), w1))"

text \<open>
  \<^verbatim>\<open>get_file_content\<close> (lines 245-275) and \<^verbatim>\<open>delete_file\<close> (lines 277-313). In
  both, the whole body stands in a \<^verbatim>\<open>try\<close> whose \<^verbatim>\<open>except Exception\<close> raises a
  500; \<^verbatim>\<open>HTTPException\<close> is an \<^verbatim>\<open>Exception\<close>, so the handler also receives the
  exceptions the body raises itself.
\<close>

record file_content =
  content_file_id :: int
  content_filename :: string
  content_text :: string

definition get_file_content_body :: "int \<Rightarrow> world \<Rightarrow> (exn + file_content) \<times> world" where
  "get_file_content_body file_id w =
     (case get_db_connection 5 w of
        (None, w1) \<Rightarrow> (Inl (HTTPException 500 Database_connection_failed), w1)
      | (Some connection, w1) \<Rightarrow>
          if executes_ok connection then
            (case find (\<lambda>r. row_id r = file_id) (table w1) of
               None \<Rightarrow> (Inl (HTTPException 404 File_not_found), w1)
             | Some r \<Rightarrow>
                 (Inr \<lparr>content_file_id = file_id, content_filename = row_original_name r,
                        content_text = (if truthy (row_extracted_text r)
                                        then the (row_extracted_text r)
                                        else ''No text content available'')\<rparr>, w1))
          else (Inl (Error ''execute failed''), w1))"

definition get_file_content :: "int \<Rightarrow> world \<Rightarrow> (exn + file_content) \<times> world" where
  "get_file_content file_id w =
     (case get_file_content_body file_id w of
        (r, w1) \<Rightarrow>
          (try_except r (\<lambda>e. Inl (HTTPException 500 Failed_to_retrieve_file_content)), w1))"

definition delete_file_body :: "int \<Rightarrow> world \<Rightarrow> (exn + string) \<times> world" where
  "delete_file_body file_id w =
     (case get_db_connection 5 w of
        (None, w1) \<Rightarrow> (Inl (HTTPException 500 Database_connection_failed), w1)
      | (Some connection, w1) \<Rightarrow>
          if executes_ok connection then
            (case find (\<lambda>r. row_id r = file_id) (table w1) of
               None \<Rightarrow> (Inl (HTTPException 404 File_not_found), w1)
             | Some r \<Rightarrow>
                 let file_path = row_file_path r;
                     w2 = w1\<lparr>table := filter (\<lambda>r. row_id r \<noteq> file_id) (table w1)\<rparr>;
                     w3 = (if fs w2 file_path \<noteq> None
                           then w2\<lparr>fs := (fs w2)(file_path := None)\<rparr> else w2)
                 in (Inr ''File deleted successfully'', w3))
          else (Inl (Error ''execute failed''), w1))"

definition delete_file :: "int \<Rightarrow> world \<Rightarrow> (exn + string) \<times> world" where
  "delete_file file_id w =
     (case delete_file_body file_id w of
        (r, w1) \<Rightarrow> (try_except r (\<lambda>e. Inl (HTTPException 500 Failed_to_delete_file)), w1))"

section \<open>Scenarios\<close>

text \<open>
  Concrete worlds on which the theorems below are run. In \<open>flaky_world\<close> the first
  three calls of \<^verbatim>\<open>connect\<close> fail (two raise, one returns a connection that is
  not connected); in \<open>stale_world\<close> the first call returns a connection that is not
  connected; in \<open>limbo_world\<close> every call does.
\<close>

definition flaky_world :: world where
  "flaky_world =
     \<lparr>fs = Map.empty, table = [], next_id = 1, clock = 0,
      server = (\<lambda>n. if n = 0 then Raises ''refused''
                      else if n = 1 then Returns (Connection False True)
                      else if n = 2 then Raises ''refused''
                      else Returns (Connection True True)),
      dials = 0, sleeps = [], uuids = (\<lambda>n. replicate (Suc n) CHR ''u''), drawn = 0\<rparr>"

definition stale_world :: world where
  "stale_world =
     \<lparr>fs = Map.empty, table = [], next_id = 1, clock = 0,
      server = (\<lambda>n. if n = 0 then Returns (Connection False True)
                      else Returns (Connection True True)),
      dials = 0, sleeps = [], uuids = (\<lambda>n. replicate (Suc n) CHR ''u''), drawn = 0\<rparr>"

definition limbo_world :: world where
  "limbo_world =
     \<lparr>fs = Map.empty, table = [], next_id = 1, clock = 0,
      server = (\<lambda>n. Returns (Connection False True)),
      dials = 0, sleeps = [], uuids = (\<lambda>n. replicate (Suc n) CHR ''u''), drawn = 0\<rparr>"

text \<open>
  A runtime without the optional libraries, whose JSON functions know one object
  in two spellings (\<open>plain_runtime\<close>); the same with a PDF library that raises on
  every file (\<open>pdf_runtime\<close>); a database with four rows of two sessions
  (\<open>library_world\<close>), and the same with a server that refuses every connection
  (\<open>down_world\<close>).
\<close>

definition quoted :: "string \<Rightarrow> string" where
  "quoted s = [CHR 0x22] @ s @ [CHR 0x22]"

definition compact_json :: string where
  "compact_json = ''{'' @ quoted ''a'' @ '':1}''"

definition spaced_json :: string where
  "spaced_json = ''{  '' @ quoted ''a'' @ '' :  1 }''"

definition indented_json :: string where
  "indented_json = ''{'' @ newline @ ''  '' @ quoted ''a'' @ '': 1'' @ newline @ ''}''"

definition plain_runtime :: runtime where
  "plain_runtime =
     \<lparr>PyPDF2 = None, docx = None,
      csv_reader = (\<lambda>s. Inr [[s]]),
      json_load = (\<lambda>s. if s = compact_json \<or> s = spaced_json
                          then Inr (JObj [(''a'', JInt 1)])
                          else Inl (LibraryError ''JSONDecodeError'')),
      json_dumps = (\<lambda>v indent. if v = JObj [(''a'', JInt 1)] \<and> indent = 2
                          then indented_json else ''null''),
      decode_utf8_ignore = (\<lambda>b. b)\<rparr>"


definition pdf_runtime :: runtime where
  "pdf_runtime = plain_runtime\<lparr>PyPDF2 := Some (\<lambda>b. Inl (LibraryError ''PdfReadError''))\<rparr>"

definition stored :: "int \<Rightarrow> string \<Rightarrow> string \<Rightarrow> nat \<Rightarrow> row" where
  "stored i session_id name date =
     \<lparr>row_id = i, row_session_id = session_id, row_filename = ''u'' @ name,
      row_original_name = name, row_file_type = ''.txt'', row_file_size = 5,
      row_file_path = ''/app/uploads/u'' @ name, row_extracted_text = Some ''hello'',
      row_upload_date = date\<rparr>"

definition library_world :: world where
  "library_world =
     \<lparr>fs = [''/app/uploads/ua.txt'' \<mapsto> ''hello'', ''/app/uploads/ub.txt'' \<mapsto> ''hello'',
            ''/app/uploads/uc.txt'' \<mapsto> ''hello'', ''/app/uploads/ud.txt'' \<mapsto> ''hello''],
      table = [stored 1 ''s1'' ''a.txt'' 10, stored 2 ''s2'' ''b.txt'' 15,
               stored 3 ''s1'' ''c.txt'' 30, stored 4 ''s1'' ''d.txt'' 20],
      next_id = 5, clock = 40,
      server = (\<lambda>n. Returns (Connection True True)),
      dials = 0, sleeps = [], uuids = (\<lambda>n. replicate (Suc n) CHR ''u''), drawn = 0\<rparr>"

definition down_world :: world where
  "down_world = library_world\<lparr>server := (\<lambda>n. Raises ''refused'')\<rparr>"

text \<open>
  An empty service whose database answers (\<open>fresh_world\<close>) and one whose database
  answers the first connection only (\<open>outage_world\<close>); the batches and files
  uploaded to them, and the row and summary of \<open>a.txt\<close>.
\<close>

definition fresh_world :: world where
  "fresh_world =
     \<lparr>fs = Map.empty, table = [], next_id = 1, clock = 0,
      server = (\<lambda>n. Returns (Connection True True)),
      dials = 0, sleeps = [], uuids = (\<lambda>n. replicate (Suc n) CHR ''u''), drawn = 0\<rparr>"

definition mixed_batch :: "upload_file list" where
  "mixed_batch = [\<lparr>filename = ''a.txt'', content = ''hello''\<rparr>,
                  \<lparr>filename = ''b.exe'', content = ''MZ''\<rparr>]"

definition row_a :: row where
  "row_a = \<lparr>row_id = 1, row_session_id = ''s1'', row_filename = ''u.txt'',
             row_original_name = ''a.txt'', row_file_type = ''.txt'', row_file_size = 5,
             row_file_path = ''/app/uploads/u.txt'', row_extracted_text = Some ''hello'',
             row_upload_date = 0\<rparr>"

definition outage_world :: world where
  "outage_world =
     fresh_world\<lparr>server := (\<lambda>n. if n = 0 then Returns (Connection True True)
                                  else Raises ''refused'')\<rparr>"

definition two_texts :: "upload_file list" where
  "two_texts = [\<lparr>filename = ''a.txt'', content = ''hello''\<rparr>,
                \<lparr>filename = ''b.txt'', content = ''world''\<rparr>]"

definition info_a :: file_info where
  "info_a = \<lparr>info_id = 1, info_filename = ''u.txt'', info_original_name = ''a.txt'',
              info_file_type = ''.txt'', info_file_size = 5, info_has_text = True,
              info_file_path = ''/app/uploads/u.txt''\<rparr>"

definition report_file :: upload_file where
  "report_file = \<lparr>filename = ''REPORT.TXT'', content = ''hello''\<rparr>"

definition empty_file :: upload_file where
  "empty_file = \<lparr>filename = ''empty.txt'', content = []\<rparr>"

definition big_file :: upload_file where
  "big_file = \<lparr>filename = ''big.txt'', content = replicate 10485761 CHR ''x''\<rparr>"

section \<open>The retry loop\<close>

lemma connect_attempts_frame:
  "connect_attempts m as w = (r, w') \<Longrightarrow>
     fs w' = fs w \<and> table w' = table w \<and> next_id w' = next_id w \<and> server w' = server w
     \<and> uuids w' = uuids w \<and> drawn w' = drawn w"
  by (induction as arbitrary: w)
     (auto simp: connect_def sleep_def split: connect_result.splits if_splits)

lemma backoff_Suc:
  "backoff w a (Suc k) =
     (if attempt_raised (outcome w 0) then [2 ^ a] else []) @
     backoff (w\<lparr>dials := Suc (dials w)\<rparr>) (Suc a) k"
proof -
  have "[0..<Suc k] = 0 # map Suc [0..<k]"
    by (simp add: upt_conv_Cons map_Suc_upt del: upt_Suc)
  then show ?thesis
    by (simp add: backoff_def outcome_def filter_map o_def del: upt_Suc)
qed

lemma backoff_cong:
  "server w' = server w \<Longrightarrow> dials w' = dials w \<Longrightarrow> backoff w' a k = backoff w a k"
  by (simp add: backoff_def outcome_def)

lemma connect_attempts_success:
  "a + k < nat m \<Longrightarrow> \<forall>i<k. attempt_failed (outcome w i) \<Longrightarrow>
   outcome w k = Returns c \<Longrightarrow> is_connected c \<Longrightarrow>
   connect_attempts m [a..<nat m] w = (Some c, after_attempts w a k (Suc k))"
proof (induction k arbitrary: a w)
  case 0
  then have "[a..<nat m] = a # [Suc a..<nat m]" by (simp add: upt_conv_Cons)
  with 0 show ?case
    by (simp add: connect_def outcome_def after_attempts_def backoff_def)
next
  case (Suc k)
  let ?w1 = "w\<lparr>dials := Suc (dials w)\<rparr>"
  from Suc.prems have lst: "[a..<nat m] = a # [Suc a..<nat m]" by (simp add: upt_conv_Cons)
  have f0: "attempt_failed (outcome w 0)" using Suc.prems by simp
  have small: "int a < m - 1" using Suc.prems by linarith
  have rest: "\<forall>i<k. attempt_failed (outcome ?w1 i)" "outcome ?w1 k = Returns c"
    using Suc.prems by (auto simp: outcome_def)
  show ?case
  proof (cases "outcome w 0")
    case (Returns c0)
    then have nc: "\<not> is_connected c0" using f0 by (simp add: attempt_failed_def)
    have "connect_attempts m [Suc a..<nat m] ?w1 = (Some c, after_attempts ?w1 (Suc a) k (Suc k))"
      using Suc.IH[of "Suc a" ?w1] Suc.prems rest by simp
    with Returns nc lst show ?thesis
      by (simp add: connect_def outcome_def backoff_Suc after_attempts_def attempt_raised_def)
  next
    case (Raises e)
    let ?w2 = "sleep (2 ^ a) ?w1"
    have o2: "outcome ?w2 = outcome ?w1" by (simp add: outcome_def sleep_def fun_eq_iff)
    have b2: "backoff ?w2 = backoff ?w1" by (simp add: backoff_def o2 fun_eq_iff)
    have "connect_attempts m [Suc a..<nat m] ?w2 = (Some c, after_attempts ?w2 (Suc a) k (Suc k))"
      using Suc.IH[of "Suc a" ?w2] Suc.prems rest by (simp add: o2)
    moreover have "after_attempts ?w2 (Suc a) k (Suc k) = after_attempts w a (Suc k) (Suc (Suc k))"
      using Raises backoff_cong[of ?w2 ?w1 "Suc a" k]
      by (simp add: after_attempts_def backoff_Suc attempt_raised_def sleep_def)
    moreover have "connect w = (Raises e, ?w1)"
      using Raises by (simp add: connect_def outcome_def)
    ultimately show ?thesis using small lst by simp
  qed
qed

lemma backoff_0: "backoff w a 0 = []"
  by (simp add: backoff_def)

lemma after_attempts_0: "after_attempts w a 0 0 = w"
  by (simp add: after_attempts_def backoff_def)

lemma connect_attempts_exhausted:
  "n = nat m - a \<Longrightarrow> a \<le> nat m \<Longrightarrow> \<forall>i<n. attempt_failed (outcome w i) \<Longrightarrow>
   connect_attempts m [a..<nat m] w = (None, after_attempts w a (n - 1) n)"
proof (induction n arbitrary: a w)
  case 0
  then show ?case by (simp add: after_attempts_0)
next
  case (Suc n)
  let ?w1 = "w\<lparr>dials := Suc (dials w)\<rparr>"
  from Suc.prems have lst: "[a..<nat m] = a # [Suc a..<nat m]" by (simp add: upt_conv_Cons)
  have f0: "attempt_failed (outcome w 0)" using Suc.prems by simp
  have rest: "\<forall>i<n. attempt_failed (outcome ?w1 i)"
  proof (intro allI impI)
    fix i assume "i < n"
    then have "Suc i < Suc n" by simp
    with Suc.prems have "attempt_failed (outcome w (Suc i))" by blast
    then show "attempt_failed (outcome ?w1 i)" by (simp add: outcome_def)
  qed
  have n: "n = nat m - Suc a" "Suc a \<le> nat m" using Suc.prems by simp_all
  have bk: "backoff w a n = (if n = 0 then [] else
              (if attempt_raised (outcome w 0) then [2 ^ a] else []) @ backoff ?w1 (Suc a) (n - 1))"
    by (cases n) (simp_all add: backoff_Suc backoff_0)
  show ?case
  proof (cases "outcome w 0")
    case (Returns c0)
    then have nc: "\<not> is_connected c0" using f0 by (simp add: attempt_failed_def)
    have "connect_attempts m [Suc a..<nat m] ?w1 = (None, after_attempts ?w1 (Suc a) (n - 1) n)"
      using Suc.IH[of "Suc a" ?w1] n rest by simp
    moreover have "after_attempts ?w1 (Suc a) (n - 1) n = after_attempts w a n (Suc n)"
      using Returns by (simp add: after_attempts_def bk attempt_raised_def backoff_0)
    moreover have "connect w = (Returns c0, ?w1)"
      using Returns by (simp add: connect_def outcome_def)
    ultimately show ?thesis using nc lst by simp
  next
    case (Raises e)
    have cw: "connect w = (Raises e, ?w1)"
      using Raises by (simp add: connect_def outcome_def)
    show ?thesis
    proof (cases "n = 0")
      case True
      then have "\<not> int a < m - 1" using n by linarith
      moreover have "after_attempts w a 0 (Suc 0) = ?w1"
        by (simp add: after_attempts_def backoff_def)
      ultimately show ?thesis using True cw lst by simp
    next
      case False
      let ?w2 = "sleep (2 ^ a) ?w1"
      have small: "int a < m - 1" using False n by linarith
      have o2: "outcome ?w2 = outcome ?w1" by (simp add: outcome_def sleep_def fun_eq_iff)
      have "connect_attempts m [Suc a..<nat m] ?w2 = (None, after_attempts ?w2 (Suc a) (n - 1) n)"
        using Suc.IH[of "Suc a" ?w2] n rest by (simp add: o2)
      moreover have "after_attempts ?w2 (Suc a) (n - 1) n = after_attempts w a n (Suc n)"
        using Raises False backoff_cong[of ?w2 ?w1 "Suc a" "n - 1"]
        by (simp add: after_attempts_def bk attempt_raised_def sleep_def backoff_0)
      ultimately show ?thesis using small cw lst by simp
    qed
  qed
qed

lemma backoff_all_raised:
  "\<forall>i<k. attempt_raised (outcome w i) \<Longrightarrow> backoff w a k = map (\<lambda>i. 2 ^ (a + i)) [0..<k]"
  by (simp add: backoff_def filter_id_conv)

text \<open>
  The loop on every script of connection results: it makes up to \<open>max_retries\<close>
  attempts and returns the first connection that is connected at once, after
  \<open>k + 1\<close> calls of \<^verbatim>\<open>connect\<close> if \<open>k\<close> attempts failed before it; if every
  attempt fails it returns \<open>None\<close> after \<open>max_retries\<close> calls, raising nothing.
  The sleeps it makes are \<open>backoff\<close>: \<open>2 ^ attempt\<close> after each attempt that raised
  \<^verbatim>\<open>Error\<close> and is not the last one. When every failed attempt raised, these are
  \<open>1, 2, 4, ...\<close>, one between any two attempts.
\<close>

lemma get_db_connection_retry:
  "(k < nat max_retries \<and> (\<forall>i<k. attempt_failed (outcome w i)) \<and>
      outcome w k = Returns c \<and> is_connected c \<longrightarrow>
      get_db_connection max_retries w =
        (Some c, w\<lparr>dials := dials w + Suc k, sleeps := sleeps w @ backoff w 0 k,
                   clock := clock w + sum_list (backoff w 0 k)\<rparr>))
   \<and> ((\<forall>i<nat max_retries. attempt_failed (outcome w i)) \<longrightarrow>
      get_db_connection max_retries w =
        (None, w\<lparr>dials := dials w + nat max_retries,
                 sleeps := sleeps w @ backoff w 0 (nat max_retries - 1),
                 clock := clock w + sum_list (backoff w 0 (nat max_retries - 1))\<rparr>))
   \<and> ((\<forall>i<k. attempt_raised (outcome w i)) \<longrightarrow> backoff w 0 k = map (\<lambda>i. 2 ^ i) [0..<k])"
proof (intro conjI impI)
  assume "k < nat max_retries \<and> (\<forall>i<k. attempt_failed (outcome w i)) \<and>
      outcome w k = Returns c \<and> is_connected c"
  then show "get_db_connection max_retries w =
        (Some c, w\<lparr>dials := dials w + Suc k, sleeps := sleeps w @ backoff w 0 k,
                   clock := clock w + sum_list (backoff w 0 k)\<rparr>)"
    using connect_attempts_success[of 0 k max_retries w c]
    by (simp add: get_db_connection_def after_attempts_def)
next
  assume "\<forall>i<nat max_retries. attempt_failed (outcome w i)"
  then show "get_db_connection max_retries w =
        (None, w\<lparr>dials := dials w + nat max_retries,
                 sleeps := sleeps w @ backoff w 0 (nat max_retries - 1),
                 clock := clock w + sum_list (backoff w 0 (nat max_retries - 1))\<rparr>)"
    using connect_attempts_exhausted[of "nat max_retries" max_retries 0 w]
    by (simp add: get_db_connection_def after_attempts_def)
next
  assume "\<forall>i<k. attempt_raised (outcome w i)"
  then show "backoff w 0 k = map (\<lambda>i. 2 ^ i) [0..<k]"
    using backoff_all_raised[of k w 0] by simp
qed

text \<open>
  An instance: five attempts allowed, attempts 0 and 2 raise, attempt 1 returns a
  connection that is not connected, attempt 3 succeeds.
\<close>

lemma get_db_connection_retry_instance:
  "get_db_connection 5 flaky_world =
     (Some (Connection True True), flaky_world\<lparr>dials := 4, sleeps := [1, 4], clock := 5\<rparr>)
   \<and> backoff flaky_world 0 0 = []"
proof -
  have out: "outcome flaky_world 0 = Raises ''refused''"
       "outcome flaky_world (Suc 0) = Returns (Connection False True)"
       "outcome flaky_world 2 = Raises ''refused''"
       "outcome flaky_world 3 = Returns (Connection True True)"
    by (simp_all add: outcome_def flaky_world_def)
  have fails: "\<forall>i<3. attempt_failed (outcome flaky_world i)"
  proof (intro allI impI)
    fix i :: nat
    assume "i < 3"
    then consider "i = 0" | "i = Suc 0" | "i = 2" by arith
    then show "attempt_failed (outcome flaky_world i)"
      by cases (simp_all add: out attempt_failed_def)
  qed
  have upt3: "[0..<3] = [0, Suc 0, 2]" by code_simp
  have bk: "backoff flaky_world 0 3 = [1, 4]"
    by (simp add: backoff_def upt3 out attempt_raised_def)
  have "(3::nat) < nat 5" by simp
  with fails out bk get_db_connection_retry[of 3 5 flaky_world "Connection True True"]
    get_db_connection_retry[of 0 5 flaky_world "Connection True True"]
  show ?thesis by (simp add: flaky_world_def)
qed

lemma get_db_connection_5:
  "get_db_connection 5 w = connect_attempts 5 [0, 1, 2, 3, 4] w"
proof -
  have "[0..<nat 5] = [0, 1, 2, 3, 4]" by code_simp
  then show ?thesis by (simp only: get_db_connection_def)
qed

text \<open>
  C6, the code where an attempt fails without raising. The claim is a wait of
  \<open>2 ^ attempt\<close> between any two failed attempts, and the \<^verbatim>\<open>except\<close> branch
  (lines 74-77) does wait. An attempt whose connection is returned but not
  connected (line 72) misses it. In \<open>stale_world\<close> attempt 0 fails this way, attempt
  1 follows and succeeds, and nothing was slept between them. In \<open>flaky_world\<close> the
  attempts 0 and 2 raise and are followed by sleeps of 1 and 4, while attempt 1,
  not connected, is followed by none (the 2 is missing). In \<open>limbo_world\<close> all five
  attempts fail this way: five calls of \<^verbatim>\<open>connect\<close> in a row, no sleep, and
  \<open>None\<close> by falling off the loop.
\<close>

theorem get_db_connection_skips_wait:
  "attempt_failed (outcome stale_world 0)
   \<and> fst (get_db_connection 5 stale_world) = Some (Connection True True)
   \<and> dials (snd (get_db_connection 5 stale_world)) = 2
   \<and> sleeps (snd (get_db_connection 5 stale_world)) = []
   \<and> fst (get_db_connection 5 flaky_world) = Some (Connection True True)
   \<and> dials (snd (get_db_connection 5 flaky_world)) = 4
   \<and> sleeps (snd (get_db_connection 5 flaky_world)) = [1, 4]
   \<and> fst (get_db_connection 5 limbo_world) = None
   \<and> dials (snd (get_db_connection 5 limbo_world)) = 5
   \<and> sleeps (snd (get_db_connection 5 limbo_world)) = []"
  by (simp add: get_db_connection_5 connect_def sleep_def stale_world_def flaky_world_def
        limbo_world_def attempt_failed_def outcome_def)

section \<open>Text extraction: results\<close>

lemma extract_returns:
  "\<exists>text. extract_text_from_file rt files file_path file_ext = Inr text"
  by (simp add: extract_text_from_file_def try_except_def split: sum.splits)

text \<open>
  C4. For every runtime, every state of the upload directory, every path and every
  extension string, \<^verbatim>\<open>extract_text_from_file\<close> raises nothing and returns a
  string: each exception of a library or of \<^verbatim>\<open>open\<close> ends in a handler that
  returns a placeholder.
\<close>

theorem extract_text_from_file_never_raises:
  "\<exists>text. extract_text_from_file rt files file_path file_ext = Inr text"
  by (simp add: extract_text_from_file_def try_except_def split: sum.splits)

text \<open>
  C3 (as amended). When \<^verbatim>\<open>PyPDF2\<close> could not be imported, extracting a
  \<^verbatim>\<open>.pdf\<close> raises nothing and returns "File type not supported for text
  extraction" (the guard \<^verbatim>\<open>and PyPDF2\<close> of line 324 sends it to the last
  branch); "PDF content could not be extracted" is what a present library that
  fails, or an unreadable file, gives.
\<close>

theorem pdf_without_library:
  "(PyPDF2 rt = None \<longrightarrow>
      extract_text_from_file rt files file_path ''.pdf''
        = Inr ''File type not supported for text extraction'')
   \<and> (PyPDF2 rt = Some reader \<and> (files file_path = None \<or>
         (\<exists>b e. files file_path = Some b \<and> reader b = Inl e)) \<longrightarrow>
      extract_text_from_file rt files file_path ''.pdf''
        = Inr ''PDF content could not be extracted'')"
  by (auto simp: extract_text_from_file_def try_except_def open_read_def)

text \<open>
  C3, witness: the same stored file under a runtime without the PDF library and
  under one whose library raises.
\<close>

theorem pdf_without_library_witness:
  "extract_text_from_file plain_runtime [''/app/uploads/u.pdf'' \<mapsto> ''%PDF-1.4''] ''/app/uploads/u.pdf'' ''.pdf''
     = Inr ''File type not supported for text extraction''
   \<and> extract_text_from_file pdf_runtime [''/app/uploads/u.pdf'' \<mapsto> ''%PDF-1.4''] ''/app/uploads/u.pdf'' ''.pdf''
     = Inr ''PDF content could not be extracted''"
proof -
  let ?files = "[''/app/uploads/u.pdf'' \<mapsto> ''%PDF-1.4'']"
  have a: "PyPDF2 plain_runtime = None" by (simp add: plain_runtime_def)
  have b: "PyPDF2 pdf_runtime = Some (\<lambda>b. Inl (LibraryError ''PdfReadError''))"
    by (simp add: pdf_runtime_def)
  have c: "\<exists>b e. ?files ''/app/uploads/u.pdf'' = Some b
             \<and> (\<lambda>b. Inl (LibraryError ''PdfReadError'')) b = Inl e"
    by simp
  show ?thesis
    using pdf_without_library[where rt = plain_runtime and files = ?files
             and file_path = "''/app/uploads/u.pdf''"] a
          pdf_without_library[where rt = pdf_runtime and files = ?files
             and file_path = "''/app/uploads/u.pdf''"
             and reader = "\<lambda>b. Inl (LibraryError ''PdfReadError'')"] b c
    by blast
qed

text \<open>
  C3, counterexample to the claim as stated: without the library, the result for a
  \<^verbatim>\<open>.pdf\<close> is not the placeholder of a parse failure.
\<close>

theorem pdf_without_library_counterexample:
  "PyPDF2 plain_runtime = None
   \<and> extract_text_from_file plain_runtime [''/app/uploads/u.pdf'' \<mapsto> ''%PDF-1.4'']
        ''/app/uploads/u.pdf'' ''.pdf''
      \<noteq> Inr ''PDF content could not be extracted''"
  by (simp add: extract_text_from_file_def try_except_def plain_runtime_def)



section \<open>Listing, reading and deleting: results\<close>

lemma get_db_connection_frame:
  "get_db_connection m w = (r, w') \<Longrightarrow>
     fs w' = fs w \<and> table w' = table w \<and> next_id w' = next_id w \<and> server w' = server w
     \<and> uuids w' = uuids w \<and> drawn w' = drawn w"
  unfolding get_db_connection_def by (rule connect_attempts_frame)

lemma library_connects:
  "get_db_connection 5 library_world = (Some (Connection True True), library_world\<lparr>dials := 1\<rparr>)"
  by (simp add: get_db_connection_5 connect_def library_world_def)

lemma library_table:
  "table library_world = [stored 1 ''s1'' ''a.txt'' 10, stored 2 ''s2'' ''b.txt'' 15,
               stored 3 ''s1'' ''c.txt'' 30, stored 4 ''s1'' ''d.txt'' 20]"
  by (simp add: library_world_def)

lemma down_fails:
  "fst (get_db_connection 5 down_world) = None"
  by (simp add: get_db_connection_5 connect_def library_world_def down_world_def sleep_def)

text \<open>
  C2, the code at an id that has no row (999): the bodies of \<^verbatim>\<open>delete_file\<close> and
  \<^verbatim>\<open>get_file_content\<close> raise the 404, their own \<^verbatim>\<open>except Exception\<close>
  catches it, and the caller receives the 500 it also receives when the database
  cannot be reached.
\<close>

theorem not_found_is_reported_as_500:
  "find (\<lambda>r. row_id r = 999) (table library_world) = None
   \<and> fst (delete_file_body 999 library_world) = Inl (HTTPException 404 File_not_found)
   \<and> fst (delete_file 999 library_world) = Inl (HTTPException 500 Failed_to_delete_file)
   \<and> fst (delete_file 999 down_world) = Inl (HTTPException 500 Failed_to_delete_file)
   \<and> fst (get_file_content_body 999 library_world) = Inl (HTTPException 404 File_not_found)
   \<and> fst (get_file_content 999 library_world)
        = Inl (HTTPException 500 Failed_to_retrieve_file_content)
   \<and> fst (get_file_content 999 down_world)
        = Inl (HTTPException 500 Failed_to_retrieve_file_content)"
proof -
  have t: "table (library_world\<lparr>dials := 1\<rparr>) = table library_world" by simp
  have f: "find (\<lambda>r. row_id r = 999) (table library_world) = None"
    by (simp add: library_table stored_def)
  have d: "\<exists>w. get_db_connection 5 down_world = (None, w)"
    using down_fails by (cases "get_db_connection 5 down_world") simp
  show ?thesis
    using f d
    by (auto simp: delete_file_def delete_file_body_def get_file_content_def
          get_file_content_body_def library_connects try_except_def t)
qed

lemma delete_file_never_404:
  "fst (delete_file file_id w) \<noteq> Inl (HTTPException 404 m)"
  by (simp add: delete_file_def try_except_def split: prod.splits sum.splits)

lemma get_file_content_never_404:
  "fst (get_file_content file_id w) \<noteq> Inl (HTTPException 404 m)"
  by (simp add: get_file_content_def try_except_def split: prod.splits sum.splits)

lemma select_by_session_sorted:
  "sorted_wrt (\<lambda>a b. row_upload_date a \<ge> row_upload_date b) (select_by_session sid rows)"
proof -
  have "sorted (map row_upload_date (sort_key row_upload_date (filter (\<lambda>r. row_session_id r = sid) rows)))"
    by (rule sorted_sort_key)
  then show ?thesis
    by (simp add: select_by_session_def sorted_wrt_rev sorted_wrt_map)
qed

lemma select_by_session_mset:
  "mset (select_by_session sid rows) = mset (filter (\<lambda>r. row_session_id r = sid) rows)"
  by (simp add: select_by_session_def)

text \<open>
  C8. When the connection is obtained and the query executes, \<^verbatim>\<open>get_files\<close>
  returns the rows of the session (each of them once, and no other), rendered by
  \<open>listed\<close>, with upload dates descending; for a session without rows it returns
  the empty list and no error.
\<close>

theorem get_files_newest_first:
  assumes "get_db_connection 5 w = (Some c, w1)" and "executes_ok c"
  shows "\<exists>rows. get_files session_id w = (Inr (map listed rows), w1)
           \<and> mset rows = mset (filter (\<lambda>r. row_session_id r = session_id) (table w))
           \<and> sorted_wrt (\<ge>) (map listed_upload_date (map listed rows))
           \<and> (filter (\<lambda>r. row_session_id r = session_id) (table w) = [] \<longrightarrow> rows = [])"
proof -
  let ?rows = "select_by_session session_id (table w)"
  have t: "table w1 = table w" using assms(1) get_db_connection_frame by blast
  have "get_files session_id w = (Inr (map listed ?rows), w1)"
    using assms by (simp add: get_files_def get_files_body_def try_except_def t)
  moreover have "mset ?rows = mset (filter (\<lambda>r. row_session_id r = session_id) (table w))"
    by (rule select_by_session_mset)
  moreover have "sorted_wrt (\<ge>) (map listed_upload_date (map listed ?rows))"
    using select_by_session_sorted[of session_id "table w"]
    by (simp add: sorted_wrt_map listed_def)
  moreover have "filter (\<lambda>r. row_session_id r = session_id) (table w) = [] \<longrightarrow> ?rows = []"
    by (simp add: select_by_session_def)
  ultimately show ?thesis by blast
qed

text \<open>
  C8, witness: three uploads of session \<open>s1\<close> at times 10, 30 and 20 (and one of
  another session) are listed as 30, 20, 10; an unknown session lists nothing.
\<close>

theorem get_files_newest_first_witness:
  "(\<exists>rows. get_files ''s1'' library_world = (Inr (map listed rows), library_world\<lparr>dials := 1\<rparr>)
           \<and> mset rows = mset (filter (\<lambda>r. row_session_id r = ''s1'') (table library_world))
           \<and> sorted_wrt (\<ge>) (map listed_upload_date (map listed rows))
           \<and> (filter (\<lambda>r. row_session_id r = ''s1'') (table library_world) = [] \<longrightarrow> rows = []))
   \<and> fst (get_files ''s1'' library_world)
       = Inr (map listed [stored 3 ''s1'' ''c.txt'' 30, stored 4 ''s1'' ''d.txt'' 20,
                          stored 1 ''s1'' ''a.txt'' 10])
   \<and> fst (get_files ''nobody'' library_world) = Inr []"
proof -
  have e: "executes_ok (Connection True True)" by simp
  have a: "fst (get_files ''s1'' library_world)
       = Inr (map listed [stored 3 ''s1'' ''c.txt'' 30, stored 4 ''s1'' ''d.txt'' 20,
                          stored 1 ''s1'' ''a.txt'' 10])"
    by (simp add: get_files_def get_files_body_def library_connects try_except_def
          select_by_session_def library_table stored_def)
  have b: "fst (get_files ''nobody'' library_world) = Inr []"
    by (simp add: get_files_def get_files_body_def library_connects try_except_def
          select_by_session_def library_table stored_def)
  show ?thesis
    using get_files_newest_first[OF library_connects e, of "''s1''"] a b by simp
qed

section \<open>Uploading a batch: results\<close>

lemma store_file_info_frame:
  assumes "store_file_info sid fn orig ft sz fp txt w = (res, w')"
  shows "fs w' = fs w \<and> uuids w' = uuids w \<and> drawn w' = drawn w \<and> server w' = server w"
proof (cases "get_db_connection 5 w")
  case (Pair c w1)
  then have "fs w1 = fs w \<and> uuids w1 = uuids w \<and> drawn w1 = drawn w \<and> server w1 = server w"
    using get_db_connection_frame by blast
  with assms Pair show ?thesis
    by (auto simp: store_file_info_def insert_row_def split: option.splits if_splits)
qed

lemma store_file_info_Inl:
  assumes "store_file_info sid fn orig ft sz fp txt w = (Inl e, w')"
  shows "table w' = table w"
proof (cases "get_db_connection 5 w")
  case (Pair c w1)
  then have "table w1 = table w" using get_db_connection_frame by blast
  with assms Pair show ?thesis
    by (auto simp: store_file_info_def insert_row_def split: option.splits if_splits)
qed

lemma store_file_info_Inr:
  assumes "store_file_info sid fn orig ft sz fp txt w = (Inr info, w')"
  shows "\<exists>r. table w' = table w @ [r] \<and> summary_of r info
           \<and> row_session_id r = sid \<and> row_filename r = fn \<and> row_original_name r = orig
           \<and> row_file_type r = ft \<and> row_file_size r = sz \<and> row_file_path r = fp
           \<and> row_extracted_text r = Some txt"
proof (cases "get_db_connection 5 w")
  case (Pair c w1)
  then have "table w1 = table w" using get_db_connection_frame by blast
  with assms Pair show ?thesis
    by (auto simp: store_file_info_def insert_row_def summary_of_def
             split: option.splits if_splits)
qed

lemma upload_loop_rows:
  "upload_loop rt sid files acc w = (r, acc', w') \<Longrightarrow>
     \<exists>rows new. table w' = table w @ rows \<and> acc' = acc @ new
        \<and> list_all2 (row_of sid) (take (length rows) files) rows
        \<and> list_all2 summary_of rows new
        \<and> (r = None \<longleftrightarrow> length rows = length files)"
proof (induction files arbitrary: acc w)
  case Nil
  then show ?case by simp
next
  case (Cons f files)
  let ?ext = "lower (suffix (filename f))"
  let ?size = "int (length (content f))"
  show ?case
  proof (cases "?size > MAX_FILE_SIZE \<or> ?ext \<notin> ALLOWED_EXTENSIONS")
    case True
    with Cons.prems have "r \<noteq> None \<and> acc' = acc \<and> w' = w"
      by (auto simp: Let_def split: if_splits)
    then show ?thesis by simp
  next
    case False
    let ?u = "uuids w (drawn w)"
    let ?path = "upload_path (?u @ ?ext)"
    let ?w2 = "w\<lparr>drawn := Suc (drawn w), fs := (fs w)(?path \<mapsto> content f)\<rparr>"
    obtain t where t: "extract_text_from_file rt (fs ?w2) ?path ?ext = Inr t"
      using extract_returns by blast
    obtain res w3 where st:
      "store_file_info sid (?u @ ?ext) (filename f) ?ext ?size ?path t ?w2 = (res, w3)"
      by (cases "store_file_info sid (?u @ ?ext) (filename f) ?ext ?size ?path t ?w2")
    show ?thesis
    proof (cases res)
      case (Inl e)
      with Cons.prems False t st have "r = Some e \<and> acc' = acc \<and> w' = w3"
        by (simp add: Let_def uuid4_def)
      moreover have "table w3 = table w"
        using st Inl store_file_info_Inl by fastforce
      ultimately show ?thesis by simp
    next
      case (Inr info)
      with Cons.prems False t st
      have rec: "upload_loop rt sid files (acc @ [info]) w3 = (r, acc', w')"
        by (simp add: Let_def uuid4_def)
      obtain r0 where r0: "table w3 = table w @ [r0]" "summary_of r0 info"
         "row_session_id r0 = sid" "row_filename r0 = ?u @ ?ext"
         "row_original_name r0 = filename f" "row_file_type r0 = ?ext"
         "row_file_size r0 = ?size" "row_file_path r0 = ?path"
        using store_file_info_Inr[OF st[unfolded Inr]] by auto
      have ro: "row_of sid f r0"
        using r0 False by (simp add: row_of_def)
      from Cons.IH[OF rec] obtain rows new where ih:
        "table w' = table w3 @ rows" "acc' = (acc @ [info]) @ new"
        "list_all2 (row_of sid) (take (length rows) files) rows"
        "list_all2 summary_of rows new"
        "r = None \<longleftrightarrow> length rows = length files"
        by blast
      have "table w' = table w @ (r0 # rows)" using ih r0 by simp
      moreover have "acc' = acc @ (info # new)" using ih by simp
      moreover have "list_all2 (row_of sid) (take (length (r0 # rows)) (f # files)) (r0 # rows)"
        using ih ro by simp
      moreover have "list_all2 summary_of (r0 # rows) (info # new)" using ih r0 by simp
      moreover have "r = None \<longleftrightarrow> length (r0 # rows) = length (f # files)" using ih by simp
      ultimately show ?thesis by blast
    qed
  qed
qed

lemma cleanup_apply:
  "cleanup infos files p =
     (if p \<noteq> [] \<and> p \<in> info_file_path ` set infos then None else files p)"
  by (induction infos arbitrary: files) auto

lemma upload_path_nonempty: "upload_path name \<noteq> []"
  by (simp add: upload_path_def UPLOAD_DIR_def)

lemma summary_paths:
  "list_all2 summary_of rows new \<Longrightarrow> map info_file_path new = map row_file_path rows"
  by (induction rows new rule: list_all2_induct) (simp_all add: summary_of_def)

lemma row_of_paths_nonempty:
  "list_all2 (row_of sid) fls rows \<Longrightarrow> r \<in> set rows \<Longrightarrow> row_file_path r \<noteq> []"
  by (induction fls rows rule: list_all2_induct)
     (auto simp: row_of_def upload_path_def UPLOAD_DIR_def)

lemma upload_loop_append:
  "upload_loop rt sid (pre @ post) acc w =
     (case upload_loop rt sid pre acc w of
        (None, acc1, w1) \<Rightarrow> upload_loop rt sid post acc1 w1
      | (Some e, acc1, w1) \<Rightarrow> (Some e, acc1, w1))"
  by (induction pre arbitrary: acc w)
     (simp_all add: Let_def split: prod.splits sum.splits)

lemma upload_loop_drawn:
  "upload_loop rt sid files acc w = (None, acc', w') \<Longrightarrow>
     drawn w' = drawn w + length files \<and> uuids w' = uuids w
     \<and> length acc' = length acc + length files"
proof (induction files arbitrary: acc w)
  case Nil
  then show ?case by simp
next
  case (Cons f files)
  let ?ext = "lower (suffix (filename f))"
  let ?size = "int (length (content f))"
  let ?u = "uuids w (drawn w)"
  let ?path = "upload_path (?u @ ?ext)"
  let ?w2 = "w\<lparr>drawn := Suc (drawn w), fs := (fs w)(?path \<mapsto> content f)\<rparr>"
  from Cons.prems have ok: "\<not> ?size > MAX_FILE_SIZE" "?ext \<in> ALLOWED_EXTENSIONS"
    by (auto simp: Let_def split: if_splits)
  obtain t where t: "extract_text_from_file rt (fs ?w2) ?path ?ext = Inr t"
    using extract_returns by blast
  obtain res w3 where st:
    "store_file_info sid (?u @ ?ext) (filename f) ?ext ?size ?path t ?w2 = (res, w3)"
    by (cases "store_file_info sid (?u @ ?ext) (filename f) ?ext ?size ?path t ?w2")
  from Cons.prems ok t st obtain info where info: "res = Inr info"
    and rec: "upload_loop rt sid files (acc @ [info]) w3 = (None, acc', w')"
    by (cases res) (simp_all add: Let_def uuid4_def)
  have "drawn w3 = Suc (drawn w) \<and> uuids w3 = uuids w"
    using store_file_info_frame[OF st] by simp
  with Cons.IH[OF rec] show ?case by simp
qed

lemma row_of_member:
  "list_all2 (row_of sid) fls rows \<Longrightarrow> r \<in> set rows \<Longrightarrow> \<exists>f\<in>set fls. row_of sid f r"
  by (induction fls rows rule: list_all2_induct) auto

text \<open>
  What the handler of \<^verbatim>\<open>upload_files\<close> reaches when the batch ends in an error:
  the error is one 500; the rows added belong to a proper prefix of the batch (the
  files before the failing one); the content-store object of every file of that
  prefix has been removed.
\<close>

lemma upload_failure_compensation:
  assumes "upload_files rt files sid w = (Inl e, w')"
  shows "\<exists>rows cause. e = HTTPException 500 (Str_of cause)
           \<and> table w' = table w @ rows
           \<and> length rows < length files
           \<and> list_all2 (row_of sid) (take (length rows) files) rows
           \<and> (\<forall>r\<in>set rows. fs w' (row_file_path r) = None)"
proof -
  obtain r uploaded w1 where loop: "upload_loop rt sid files [] w = (r, uploaded, w1)"
    by (cases "upload_loop rt sid files [] w") auto
  with assms obtain cause where r: "r = Some cause"
    and e: "e = HTTPException 500 (Str_of cause)"
    and w': "w' = w1\<lparr>fs := cleanup uploaded (fs w1)\<rparr>"
    by (cases r) (auto simp: upload_files_def)
  from upload_loop_rows[OF loop] obtain rows where rows:
    "table w1 = table w @ rows" "list_all2 (row_of sid) (take (length rows) files) rows"
    "list_all2 summary_of rows uploaded" "r = None \<longleftrightarrow> length rows = length files"
    by auto
  have len: "length rows \<le> length files"
    using list_all2_lengthD[OF rows(2)] by simp
  have paths: "map info_file_path uploaded = map row_file_path rows"
    using rows(3) by (rule summary_paths)
  have gone: "fs w' (row_file_path x) = None" if "x \<in> set rows" for x
  proof -
    have "row_file_path x \<noteq> []" using rows(2) that by (rule row_of_paths_nonempty)
    moreover have "row_file_path x \<in> info_file_path ` set uploaded"
      using that paths by (metis image_eqI image_set)
    ultimately show ?thesis by (simp add: w' cleanup_apply)
  qed
  have "table w' = table w @ rows" using rows(1) w' by simp
  moreover have "length rows < length files" using len rows(4) r by simp
  ultimately show ?thesis using e rows(2) gone by blast
qed

text \<open>
  C5 (as amended). Every row that \<^verbatim>\<open>upload_files\<close> adds has
  \<open>0 \<le> file_size \<le> MAX_FILE_SIZE\<close> (an empty file is accepted: only the upper
  bound is checked, line 149); a batch of one file larger than the maximum is
  rejected and leaves the whole world, table and upload directory included, as it
  was.
\<close>

theorem stored_file_sizes:
  "(upload_files rt files sid w = (res, w') \<longrightarrow>
      (\<exists>rows. table w' = table w @ rows
         \<and> (\<forall>r\<in>set rows. 0 \<le> row_file_size r \<and> row_file_size r \<le> MAX_FILE_SIZE)))
   \<and> (int (length (content f)) > MAX_FILE_SIZE \<longrightarrow>
        upload_files rt [f] sid w =
          (Inl (HTTPException 500 (Str_of (HTTPException 400 (File_is_too_large (filename f))))),
           w))"
proof (intro conjI impI)
  assume up: "upload_files rt files sid w = (res, w')"
  obtain r uploaded w1 where loop: "upload_loop rt sid files [] w = (r, uploaded, w1)"
    by (cases "upload_loop rt sid files [] w") auto
  from upload_loop_rows[OF loop] obtain rows where rows:
    "table w1 = table w @ rows" "list_all2 (row_of sid) (take (length rows) files) rows"
    by auto
  have "table w' = table w1" using up loop by (cases r) (auto simp: upload_files_def)
  moreover have "0 \<le> row_file_size x \<and> row_file_size x \<le> MAX_FILE_SIZE" if mem: "x \<in> set rows" for x
  proof -
    obtain g where "row_of sid g x" using row_of_member[OF rows(2) mem] by blast
    then show ?thesis by (simp add: row_of_def)
  qed
  ultimately show "\<exists>rows. table w' = table w @ rows
         \<and> (\<forall>r\<in>set rows. 0 \<le> row_file_size r \<and> row_file_size r \<le> MAX_FILE_SIZE)"
    using rows(1) by auto
next
  assume "int (length (content f)) > MAX_FILE_SIZE"
  then show "upload_files rt [f] sid w =
          (Inl (HTTPException 500 (Str_of (HTTPException 400 (File_is_too_large (filename f))))),
           w)"
    by (simp add: upload_files_def)
qed

lemma suffixes:
  "lower (suffix ''a.txt'') = ''.txt''"
  "lower (suffix ''b.exe'') = ''.exe''"
  "lower (suffix ''b.txt'') = ''.txt''"
  "lower (suffix ''big.txt'') = ''.txt''"
  "lower (suffix ''REPORT.TXT'') = ''.txt''"
  "lower (suffix ''empty.txt'') = ''.txt''"
  "lower (suffix ''.TXT'') = []"
  by code_simp+

lemma allowed:
  "''.txt'' \<in> ALLOWED_EXTENSIONS" "''.exe'' \<notin> ALLOWED_EXTENSIONS"
  by (simp_all add: ALLOWED_EXTENSIONS_def)

lemma store_first_try:
  assumes "server w (dials w) = Returns c" "is_connected c" "executes_ok c"
  shows "store_file_info sid fn orig ft sz fp t w =
     (Inr \<lparr>info_id = next_id w, info_filename = fn, info_original_name = orig,
            info_file_type = ft, info_file_size = sz, info_has_text = (t \<noteq> []),
            info_file_path = fp\<rparr>,
      w\<lparr>dials := Suc (dials w),
        table := table w @
           [\<lparr>row_id = next_id w, row_session_id = sid, row_filename = fn,
             row_original_name = orig, row_file_type = ft, row_file_size = sz,
             row_file_path = fp, row_extracted_text = Some t, row_upload_date = clock w\<rparr>],
        next_id := next_id w + 1\<rparr>)"
  using assms
  by (simp add: store_file_info_def get_db_connection_5 connect_def insert_row_def)

lemma mixed_upload:
  "upload_files plain_runtime mixed_batch ''s1'' fresh_world =
     (Inl (HTTPException 500 (Str_of (HTTPException 400 (File_type_not_supported ''.exe'')))),
      fresh_world\<lparr>drawn := 1, dials := 1, table := [row_a], next_id := 2\<rparr>)"
proof -
  let ?w2 = "fresh_world\<lparr>drawn := Suc 0, fs := [''/app/uploads/u.txt'' \<mapsto> ''hello'']\<rparr>"
  have s: "server ?w2 (dials ?w2) = Returns (Connection True True)"
    by (simp add: fresh_world_def)
  have x: "extract_text_from_file plain_runtime [''/app/uploads/u.txt'' \<mapsto> ''hello'']
             ''/app/uploads/u.txt'' ''.txt'' = Inr ''hello''"
    by (simp add: extract_text_from_file_def try_except_def open_read_def plain_runtime_def)
  have u: "uuid4 fresh_world = (''u'', fresh_world\<lparr>drawn := Suc 0\<rparr>)"
    by (simp add: uuid4_def fresh_world_def)
  have p: "upload_path ''u.txt'' = ''/app/uploads/u.txt''"
    by (simp add: upload_path_def UPLOAD_DIR_def)
  have f: "fs fresh_world = Map.empty" "table fresh_world = []" "next_id fresh_world = 1"
     "clock fresh_world = 0" "dials fresh_world = 0"
    by (simp_all add: fresh_world_def)
  show ?thesis
    by (simp add: upload_files_def mixed_batch_def Let_def MAX_FILE_SIZE_def suffixes allowed
          u p x f store_first_try[OF s] row_a_def)
qed

lemma split_no_sep: "sep \<notin> set s \<Longrightarrow> split sep s = [s]"
  by (induction s) auto

lemma rfind_None: "c \<notin> set ys \<Longrightarrow> rfind c ys = None"
  by (induction ys) auto

lemma rfind_append: "c \<notin> set ys \<Longrightarrow> rfind c (xs @ c # ys) = Some (length xs)"
  by (induction xs) (auto simp: rfind_None)

lemma lower_char_dot: "lower_char CHR ''.'' = CHR ''.''"
  by code_simp

lemma suffix_of_extension:
  assumes "stem \<noteq> []" "CHR ''/'' \<notin> set stem" "e \<noteq> []" "CHR ''.'' \<notin> set e"
    "CHR ''/'' \<notin> set e"
  shows "suffix (stem @ CHR ''.'' # e) = CHR ''.'' # e"
proof -
  let ?name = "stem @ CHR ''.'' # e"
  have "CHR ''/'' \<notin> set ?name" using assms by simp
  then have sp: "split CHR ''/'' ?name = [?name]" by (rule split_no_sep)
  have ne: "?name \<noteq> []" "?name \<noteq> ''.''" using assms by (auto simp: append_eq_Cons_conv)
  have pn: "path_name ?name = ?name" using ne by (simp add: path_name_def sp)
  have rf: "rfind CHR ''.'' ?name = Some (length stem)" using assms by (simp add: rfind_append)
  show ?thesis using assms by (simp add: suffix_def pn rf Let_def)
qed

lemma upload_single_ok:
  assumes "lower (suffix (filename f)) \<in> ALLOWED_EXTENSIONS"
    and "int (length (content f)) \<le> MAX_FILE_SIZE"
    and "outcome w 0 = Returns c" "is_connected c" "executes_ok c"
  shows "\<exists>info w' r. upload_files rt [f] sid w = (Inr [info], w')
           \<and> info_file_type info = lower (suffix (filename f))
           \<and> table w' = table w @ [r]
           \<and> row_original_name r = filename f
           \<and> row_file_type r = lower (suffix (filename f))"
proof -
  let ?ext = "lower (suffix (filename f))"
  let ?u = "uuids w (drawn w)"
  let ?path = "upload_path (?u @ ?ext)"
  let ?w2 = "w\<lparr>drawn := Suc (drawn w), fs := (fs w)(?path \<mapsto> content f)\<rparr>"
  obtain t where t: "extract_text_from_file rt (fs ?w2) ?path ?ext = Inr t"
    using extract_returns by blast
  have s: "server ?w2 (dials ?w2) = Returns c" using assms(3) by (simp add: outcome_def)
  note st = store_first_try[OF s assms(4) assms(5), of sid "?u @ ?ext" "filename f" ?ext
      "int (length (content f))" ?path t]
  show ?thesis
    using assms(1,2) t st
    by (simp add: upload_files_def Let_def uuid4_def)
qed

text \<open>
  C9. The extension is \<^verbatim>\<open>Path(filename).suffix.lower()\<close>, and this lowercased
  value is what is checked and what is stored: a file whose lowercased suffix is
  supported (and whose size is within the limit) is accepted when the database
  answers, and its \<open>file_type\<close> is the lowercased suffix; every row a batch adds
  has a supported \<open>file_type\<close> equal to the lowercased suffix of its file name;
  and the suffix of a name \<open>stem.EXT\<close> lowercases to \<open>.ext\<close>.
\<close>

theorem extension_case_insensitive:
  "(lower (suffix (filename f)) \<in> ALLOWED_EXTENSIONS
      \<and> int (length (content f)) \<le> MAX_FILE_SIZE
      \<and> outcome w 0 = Returns c \<and> is_connected c \<and> executes_ok c \<longrightarrow>
      (\<exists>info w1 r. upload_files rt [f] sid w = (Inr [info], w1)
           \<and> info_file_type info = lower (suffix (filename f))
           \<and> table w1 = table w @ [r]
           \<and> row_original_name r = filename f
           \<and> row_file_type r = lower (suffix (filename f))))
   \<and> (upload_files rt files sid w = (res, w') \<longrightarrow>
      (\<exists>rows. table w' = table w @ rows
         \<and> list_all2 (\<lambda>g r. row_file_type r = lower (suffix (filename g))
                              \<and> row_file_type r \<in> ALLOWED_EXTENSIONS)
              (take (length rows) files) rows))
   \<and> (stem \<noteq> [] \<and> CHR ''/'' \<notin> set stem \<and> e \<noteq> [] \<and> CHR ''.'' \<notin> set e
        \<and> CHR ''/'' \<notin> set e \<longrightarrow>
      lower (suffix (stem @ CHR ''.'' # e)) = CHR ''.'' # lower e)"
proof (intro conjI impI)
  assume "lower (suffix (filename f)) \<in> ALLOWED_EXTENSIONS
      \<and> int (length (content f)) \<le> MAX_FILE_SIZE
      \<and> outcome w 0 = Returns c \<and> is_connected c \<and> executes_ok c"
  then show "\<exists>info w1 r. upload_files rt [f] sid w = (Inr [info], w1)
           \<and> info_file_type info = lower (suffix (filename f))
           \<and> table w1 = table w @ [r]
           \<and> row_original_name r = filename f
           \<and> row_file_type r = lower (suffix (filename f))"
    using upload_single_ok by blast
next
  assume up: "upload_files rt files sid w = (res, w')"
  obtain r uploaded w1 where loop: "upload_loop rt sid files [] w = (r, uploaded, w1)"
    by (cases "upload_loop rt sid files [] w") auto
  from upload_loop_rows[OF loop] obtain rows where rows:
    "table w1 = table w @ rows" "list_all2 (row_of sid) (take (length rows) files) rows"
    by auto
  have "table w' = table w1" using up loop by (cases r) (auto simp: upload_files_def)
  moreover have "list_all2 (\<lambda>g r. row_file_type r = lower (suffix (filename g))
                              \<and> row_file_type r \<in> ALLOWED_EXTENSIONS)
              (take (length rows) files) rows"
    using rows(2) by (rule list_all2_mono) (simp add: row_of_def)
  ultimately show "\<exists>rows. table w' = table w @ rows
         \<and> list_all2 (\<lambda>g r. row_file_type r = lower (suffix (filename g))
                              \<and> row_file_type r \<in> ALLOWED_EXTENSIONS)
              (take (length rows) files) rows"
    using rows(1) by auto
next
  assume "stem \<noteq> [] \<and> CHR ''/'' \<notin> set stem \<and> e \<noteq> [] \<and> CHR ''.'' \<notin> set e
        \<and> CHR ''/'' \<notin> set e"
  then show "lower (suffix (stem @ CHR ''.'' # e)) = CHR ''.'' # lower e"
    by (simp add: suffix_of_extension lower_def lower_char_dot)
qed

lemma upload_loop_uploaded_paths:
  assumes "upload_loop rt sid files [] w = (r, uploaded, w1)"
  shows "\<exists>rows. table w1 = table w @ rows
           \<and> map row_file_path rows = map info_file_path uploaded
           \<and> (\<forall>p\<in>info_file_path ` set uploaded. p \<noteq> [])
           \<and> (r \<noteq> None \<longrightarrow> length uploaded < length files)"
proof -
  from upload_loop_rows[OF assms] obtain rows where rows:
    "table w1 = table w @ rows" "list_all2 (row_of sid) (take (length rows) files) rows"
    "list_all2 summary_of rows uploaded" "r = None \<longleftrightarrow> length rows = length files"
    by auto
  have paths: "map info_file_path uploaded = map row_file_path rows"
    using rows(3) by (rule summary_paths)
  have "p \<noteq> []" if p: "p \<in> info_file_path ` set uploaded" for p
  proof -
    have "info_file_path ` set uploaded = row_file_path ` set rows"
      using arg_cong[OF paths, of set] by simp
    then obtain x where "x \<in> set rows" "p = row_file_path x" using p by auto
    then show ?thesis using row_of_paths_nonempty[OF rows(2), of x] by simp
  qed
  moreover have "length rows \<le> length files"
    using list_all2_lengthD[OF rows(2)] by simp
  moreover have "length uploaded = length rows"
    using list_all2_lengthD[OF rows(3)] by simp
  ultimately show ?thesis using rows(1) rows(4) paths by auto
qed

lemma failing_file_stays:
  assumes loop: "upload_loop rt sid (pre @ f # post) [] w = (Some e, uploaded, w1)"
    and len: "length uploaded = length pre"
    and size: "int (length (content f)) \<le> MAX_FILE_SIZE"
    and ext: "lower (suffix (filename f)) \<in> ALLOWED_EXTENSIONS"
  shows "fs w1 (upload_path (uuids w (drawn w + length pre) @ lower (suffix (filename f))))
           = Some (content f)"
proof -
  obtain r1 acc1 wm where pre: "upload_loop rt sid pre [] w = (r1, acc1, wm)"
    by (cases "upload_loop rt sid pre [] w") auto
  have r1: "r1 = None"
  proof (rule ccontr)
    assume "r1 \<noteq> None"
    then obtain e1 where e1: "r1 = Some e1" by auto
    with loop pre have "uploaded = acc1" by (simp add: upload_loop_append)
    moreover have "length acc1 < length pre"
      using upload_loop_uploaded_paths[OF pre] e1 by auto
    ultimately show False using len by simp
  qed
  have mid: "drawn wm = drawn w + length pre" "uuids wm = uuids w" "length acc1 = length pre"
    using upload_loop_drawn[OF pre[unfolded r1]] by simp_all
  have rest: "upload_loop rt sid (f # post) acc1 wm = (Some e, uploaded, w1)"
    using loop pre r1 by (simp add: upload_loop_append)
  let ?ext = "lower (suffix (filename f))"
  let ?u = "uuids wm (drawn wm)"
  let ?path = "upload_path (?u @ ?ext)"
  let ?w2 = "wm\<lparr>drawn := Suc (drawn wm), fs := (fs wm)(?path \<mapsto> content f)\<rparr>"
  obtain t where t: "extract_text_from_file rt (fs ?w2) ?path ?ext = Inr t"
    using extract_returns by blast
  obtain res w3 where st:
    "store_file_info sid (?u @ ?ext) (filename f) ?ext (int (length (content f))) ?path t ?w2
       = (res, w3)"
    by (cases "store_file_info sid (?u @ ?ext) (filename f) ?ext (int (length (content f)))
                 ?path t ?w2")
  have "w1 = w3"
  proof (cases res)
    case (Inl e')
    with rest size ext t st show ?thesis by (simp add: Let_def uuid4_def)
  next
    case (Inr info)
    with rest size ext t st
    have rec: "upload_loop rt sid post (acc1 @ [info]) w3 = (Some e, uploaded, w1)"
      by (simp add: Let_def uuid4_def)
    from upload_loop_rows[OF rec] obtain new where "uploaded = (acc1 @ [info]) @ new" by auto
    then have "length uploaded > length pre" using mid by simp
    with len show ?thesis by simp
  qed
  moreover have "fs w3 = fs ?w2" using store_file_info_frame[OF st] by simp
  ultimately show ?thesis using mid by simp
qed

text \<open>
  C10. When the loop of \<^verbatim>\<open>upload_files\<close> is left by an exception, the handler
  removes exactly the paths of \<^verbatim>\<open>uploaded_files\<close>, which are the paths of the
  rows inserted by this batch, and changes nothing else; if the failing file had
  passed both validations (so that its bytes were written and the failure came
  from storing its record) and its path is not the path of an earlier file of the
  batch, its object is still in the upload directory afterwards.
\<close>

theorem cleanup_removes_committed_only:
  assumes "upload_loop rt sid files [] w = (Some e, uploaded, w1)"
  shows "upload_files rt files sid w =
           (Inl (HTTPException 500 (Str_of e)),
            w1\<lparr>fs := (\<lambda>p. if p \<in> info_file_path ` set uploaded then None else fs w1 p)\<rparr>)
         \<and> (\<exists>rows. table w1 = table w @ rows
               \<and> map row_file_path rows = map info_file_path uploaded)
         \<and> (\<forall>pre f post. files = pre @ f # post \<and> length uploaded = length pre
               \<and> int (length (content f)) \<le> MAX_FILE_SIZE
               \<and> lower (suffix (filename f)) \<in> ALLOWED_EXTENSIONS
               \<and> upload_path (uuids w (drawn w + length pre) @ lower (suffix (filename f)))
                    \<notin> info_file_path ` set uploaded
               \<longrightarrow> fs (snd (upload_files rt files sid w))
                     (upload_path (uuids w (drawn w + length pre) @ lower (suffix (filename f))))
                   = Some (content f))"
proof -
  from upload_loop_uploaded_paths[OF assms] obtain rows where rows:
    "table w1 = table w @ rows" "map row_file_path rows = map info_file_path uploaded"
    "\<forall>p\<in>info_file_path ` set uploaded. p \<noteq> []"
    by blast
  have cl: "cleanup uploaded (fs w1)
              = (\<lambda>p. if p \<in> info_file_path ` set uploaded then None else fs w1 p)"
    using rows(3) by (auto simp: cleanup_apply fun_eq_iff)
  have up: "upload_files rt files sid w =
           (Inl (HTTPException 500 (Str_of e)),
            w1\<lparr>fs := (\<lambda>p. if p \<in> info_file_path ` set uploaded then None else fs w1 p)\<rparr>)"
    using assms by (simp add: upload_files_def cl)
  have stays: "fs (snd (upload_files rt files sid w))
                 (upload_path (uuids w (drawn w + length pre) @ lower (suffix (filename f))))
               = Some (content f)"
    if h: "files = pre @ f # post" "length uploaded = length pre"
          "int (length (content f)) \<le> MAX_FILE_SIZE"
          "lower (suffix (filename f)) \<in> ALLOWED_EXTENSIONS"
          "upload_path (uuids w (drawn w + length pre) @ lower (suffix (filename f)))
                    \<notin> info_file_path ` set uploaded"
    for pre f post
    using failing_file_stays[OF assms[unfolded h(1)] h(2) h(3) h(4)] h(5) by (simp add: up)
  show ?thesis using up rows(1,2) stays by blast
qed

lemma fresh_fields:
  "fs fresh_world = Map.empty" "table fresh_world = []" "next_id fresh_world = 1"
  "clock fresh_world = 0" "dials fresh_world = 0" "drawn fresh_world = 0"
  "sleeps fresh_world = []"
  "uuids fresh_world = (\<lambda>n. replicate (Suc n) CHR ''u'')"
  by (simp_all add: fresh_world_def)

lemma paths:
  "upload_path ''u.txt'' = ''/app/uploads/u.txt''"
  "upload_path ''uu.txt'' = ''/app/uploads/uu.txt''"
  by (simp_all add: upload_path_def UPLOAD_DIR_def)

lemma extract_txt:
  "files p = Some b \<Longrightarrow> extract_text_from_file plain_runtime files p ''.txt'' = Inr b"
  by (simp add: extract_text_from_file_def try_except_def open_read_def plain_runtime_def)

lemma outage_loop:
  "upload_loop plain_runtime ''s1'' two_texts [] outage_world =
     (Some (Exception (Failed_to_store_file_info (Exception Database_connection_failed))),
      [info_a],
      outage_world\<lparr>drawn := 2,
         fs := [''/app/uploads/u.txt'' \<mapsto> ''hello'', ''/app/uploads/uu.txt'' \<mapsto> ''world''],
         dials := 6, sleeps := [1, 2, 4, 8], clock := 15, table := [row_a], next_id := 2\<rparr>)"
proof -
  have o: "fs outage_world = Map.empty" "table outage_world = []" "next_id outage_world = 1"
     "clock outage_world = 0" "dials outage_world = 0" "drawn outage_world = 0"
     "sleeps outage_world = []"
     "uuids outage_world = (\<lambda>n. replicate (Suc n) CHR ''u'')"
     "server outage_world = (\<lambda>n. if n = 0 then Returns (Connection True True)
                                  else Raises ''refused'')"
    by (simp_all add: outage_world_def fresh_world_def)
  show ?thesis
    by (simp add: two_texts_def Let_def MAX_FILE_SIZE_def suffixes allowed uuid4_def
          paths extract_txt o row_a_def info_a_def
          store_file_info_def insert_row_def get_db_connection_5 connect_def sleep_def)
qed

text \<open>
  An instance: the batch \<open>a.txt\<close>, \<open>b.exe\<close> on a database that answers.
\<close>

lemma upload_failure_compensation_instance:
  "(\<exists>rows cause.
       HTTPException 500 (Str_of (HTTPException 400 (File_type_not_supported ''.exe'')))
         = HTTPException 500 (Str_of cause)
       \<and> table (fresh_world\<lparr>drawn := 1, dials := 1, table := [row_a], next_id := 2\<rparr>)
           = table fresh_world @ rows
       \<and> length rows < length mixed_batch
       \<and> list_all2 (row_of ''s1'') (take (length rows) mixed_batch) rows
       \<and> (\<forall>r\<in>set rows.
             fs (fresh_world\<lparr>drawn := 1, dials := 1, table := [row_a], next_id := 2\<rparr>)
               (row_file_path r) = None))
   \<and> fs (snd (upload_files plain_runtime mixed_batch ''s1'' fresh_world))
        ''/app/uploads/u.txt'' = None"
  using upload_failure_compensation[OF mixed_upload]
  by (simp add: mixed_upload fresh_fields)

text \<open>
  C1, the code at the two-file batch of the claim (\<open>a.txt\<close> valid, \<open>b.exe\<close> with a
  disallowed extension) on an empty service. The claim is that no row exists for
  either file afterwards. The handler ("Clean up any uploaded files on error",
  lines 195-202) removes the object of \<open>a.txt\<close> and raises the 500, but the row of
  \<open>a.txt\<close>, committed by \<^verbatim>\<open>store_file_info\<close>, is still in the table and now
  points to a path that does not exist. \<^verbatim>\<open>delete_file\<close>, which undoes one upload,
  removes both the row and the object (last two lines, on \<open>library_world\<close>).
\<close>

theorem upload_failure_leaves_row:
  "fst (upload_files plain_runtime mixed_batch ''s1'' fresh_world)
     = Inl (HTTPException 500 (Str_of (HTTPException 400 (File_type_not_supported ''.exe''))))
   \<and> table fresh_world = []
   \<and> table (snd (upload_files plain_runtime mixed_batch ''s1'' fresh_world)) = [row_a]
   \<and> row_original_name row_a = filename (hd mixed_batch)
   \<and> fs (snd (upload_files plain_runtime mixed_batch ''s1'' fresh_world)) (row_file_path row_a)
       = None
   \<and> map row_id (table (snd (delete_file 1 library_world))) = [2, 3, 4]
   \<and> fs (snd (delete_file 1 library_world)) (row_file_path (stored 1 ''s1'' ''a.txt'' 10))
       = None"
proof -
  have a: "filename (hd mixed_batch) = ''a.txt''" by (simp add: mixed_batch_def)
  have d: "delete_file 1 library_world =
             (Inr ''File deleted successfully'',
              library_world\<lparr>dials := 1,
                table := [stored 2 ''s2'' ''b.txt'' 15, stored 3 ''s1'' ''c.txt'' 30,
                          stored 4 ''s1'' ''d.txt'' 20],
                fs := (fs library_world)(''/app/uploads/ua.txt'' := None)\<rparr>)"
  proof -
    have f: "fs library_world ''/app/uploads/ua.txt'' = Some ''hello''"
      by (simp add: library_world_def)
    show ?thesis
      by (simp add: delete_file_def delete_file_body_def library_connects library_table
            stored_def try_except_def f Let_def)
  qed
  show ?thesis by (simp add: mixed_upload fresh_fields row_a_def a d stored_def)
qed

lemma empty_upload:
  "upload_files plain_runtime [empty_file] ''s1'' fresh_world =
     (Inr [\<lparr>info_id = 1, info_filename = ''u.txt'', info_original_name = ''empty.txt'',
             info_file_type = ''.txt'', info_file_size = 0, info_has_text = False,
             info_file_path = ''/app/uploads/u.txt''\<rparr>],
      fresh_world\<lparr>drawn := 1, fs := [''/app/uploads/u.txt'' \<mapsto> []], dials := 1,
         table := [\<lparr>row_id = 1, row_session_id = ''s1'', row_filename = ''u.txt'',
             row_original_name = ''empty.txt'', row_file_type = ''.txt'', row_file_size = 0,
             row_file_path = ''/app/uploads/u.txt'', row_extracted_text = Some [],
             row_upload_date = 0\<rparr>],
         next_id := 2\<rparr>)"
proof -
  have s: "server fresh_world = (\<lambda>n. Returns (Connection True True))"
    by (simp add: fresh_world_def)
  show ?thesis
    by (simp add: upload_files_def empty_file_def Let_def MAX_FILE_SIZE_def suffixes allowed
          uuid4_def paths extract_txt fresh_fields s
          store_file_info_def insert_row_def get_db_connection_5 connect_def)
qed

text \<open>
  C5, counterexample to the claim as stated (\<open>0 < file_size\<close>): an empty
  \<open>empty.txt\<close> is uploaded with success and its row has size 0.
\<close>

theorem stored_file_sizes_counterexample:
  "table fresh_world = []
   \<and> (\<exists>infos. fst (upload_files plain_runtime [empty_file] ''s1'' fresh_world) = Inr infos)
   \<and> map row_file_size (table (snd (upload_files plain_runtime [empty_file] ''s1'' fresh_world)))
       = [0]"
  by (simp add: empty_upload fresh_fields)

text \<open>
  C5, witness: the rows of the batch \<open>a.txt\<close>, \<open>b.exe\<close>, and a file of
  \<open>MAX_FILE_SIZE + 1\<close> bytes.
\<close>

theorem stored_file_sizes_witness:
  "(\<exists>rows. table (fresh_world\<lparr>drawn := 1, dials := 1, table := [row_a], next_id := 2\<rparr>)
              = table fresh_world @ rows
         \<and> (\<forall>r\<in>set rows. 0 \<le> row_file_size r \<and> row_file_size r \<le> MAX_FILE_SIZE))
   \<and> int (length (content big_file)) = MAX_FILE_SIZE + 1
   \<and> upload_files plain_runtime [big_file] ''s1'' fresh_world =
        (Inl (HTTPException 500 (Str_of (HTTPException 400 (File_is_too_large ''big.txt'')))),
         fresh_world)"
proof -
  have big: "int (length (content big_file)) = MAX_FILE_SIZE + 1"
    by (simp add: big_file_def MAX_FILE_SIZE_def)
  then have gt: "int (length (content big_file)) > MAX_FILE_SIZE" by simp
  have n: "filename big_file = ''big.txt''" by (simp add: big_file_def)
  show ?thesis
    using stored_file_sizes[where rt = plain_runtime and files = mixed_batch and sid = "''s1''"
            and w = fresh_world and f = big_file
            and res = "Inl (HTTPException 500 (Str_of (HTTPException 400
                          (File_type_not_supported ''.exe''))))"
            and w' = "fresh_world\<lparr>drawn := 1, dials := 1, table := [row_a], next_id := 2\<rparr>"]
          mixed_upload gt big n
    by simp
qed

text \<open>
  C9, witness: \<open>REPORT.TXT\<close> is accepted and recorded with type \<open>.txt\<close>.
\<close>

theorem extension_case_insensitive_witness:
  "(\<exists>info w1 r. upload_files plain_runtime [report_file] ''s1'' fresh_world = (Inr [info], w1)
        \<and> info_file_type info = ''.txt''
        \<and> table w1 = table fresh_world @ [r]
        \<and> row_original_name r = ''REPORT.TXT''
        \<and> row_file_type r = ''.txt'')
   \<and> (\<exists>rows. table (fresh_world\<lparr>drawn := 1, dials := 1, table := [row_a], next_id := 2\<rparr>)
                = table fresh_world @ rows
         \<and> list_all2 (\<lambda>g r. row_file_type r = lower (suffix (filename g))
                              \<and> row_file_type r \<in> ALLOWED_EXTENSIONS)
              (take (length rows) mixed_batch) rows)
   \<and> lower (suffix (''REPORT'' @ CHR ''.'' # ''TXT'')) = CHR ''.'' # lower ''TXT''
   \<and> lower ''TXT'' = ''txt''"
proof -
  have f: "filename report_file = ''REPORT.TXT''" "content report_file = ''hello''"
    by (simp_all add: report_file_def)
  have sz: "int (length (content report_file)) \<le> MAX_FILE_SIZE"
    by (simp add: f MAX_FILE_SIZE_def)
  have ex: "lower (suffix (filename report_file)) \<in> ALLOWED_EXTENSIONS"
    by (simp add: f suffixes allowed)
  have o: "outcome fresh_world 0 = Returns (Connection True True)"
    by (simp add: outcome_def fresh_world_def)
  have st: "''REPORT'' \<noteq> [] \<and> CHR ''/'' \<notin> set ''REPORT'' \<and> ''TXT'' \<noteq> []
              \<and> CHR ''.'' \<notin> set ''TXT'' \<and> CHR ''/'' \<notin> set ''TXT''"
    by simp
  have l: "lower ''TXT'' = ''txt''" by code_simp
  show ?thesis
    using extension_case_insensitive[where rt = plain_runtime and f = report_file
            and w = fresh_world and c = "Connection True True" and sid = "''s1''"
            and files = mixed_batch and stem = "''REPORT''" and e = "''TXT''"
            and res = "Inl (HTTPException 500 (Str_of (HTTPException 400
                          (File_type_not_supported ''.exe''))))"
            and w' = "fresh_world\<lparr>drawn := 1, dials := 1, table := [row_a], next_id := 2\<rparr>"]
          sz ex o st l mixed_upload
    by (simp add: f suffixes)
qed

text \<open>
  C10, witness: the database answers for \<open>a.txt\<close> and refuses every connection
  for \<open>b.txt\<close>; after the error the object of \<open>a.txt\<close> is gone and the object
  of \<open>b.txt\<close> is still there.
\<close>

theorem cleanup_removes_committed_only_witness:
  "upload_files plain_runtime two_texts ''s1'' outage_world =
     (Inl (HTTPException 500 (Str_of (Exception (Failed_to_store_file_info
              (Exception Database_connection_failed))))),
      outage_world\<lparr>drawn := 2, fs := [''/app/uploads/uu.txt'' \<mapsto> ''world''],
         dials := 6, sleeps := [1, 2, 4, 8], clock := 15, table := [row_a], next_id := 2\<rparr>)
   \<and> fs (snd (upload_files plain_runtime two_texts ''s1'' outage_world)) ''/app/uploads/u.txt''
       = None
   \<and> fs (snd (upload_files plain_runtime two_texts ''s1'' outage_world)) ''/app/uploads/uu.txt''
       = Some ''world''"
proof -
  note th = cleanup_removes_committed_only[OF outage_loop]
  let ?a = "\<lparr>filename = ''a.txt'', content = ''hello''\<rparr>"
  let ?b = "\<lparr>filename = ''b.txt'', content = ''world''\<rparr>"
  have o: "fs outage_world = Map.empty" "drawn outage_world = 0"
    "uuids outage_world = (\<lambda>n. replicate (Suc n) CHR ''u'')"
    by (simp_all add: outage_world_def fresh_world_def)
  have up: "upload_files plain_runtime two_texts ''s1'' outage_world =
     (Inl (HTTPException 500 (Str_of (Exception (Failed_to_store_file_info
              (Exception Database_connection_failed))))),
      outage_world\<lparr>drawn := 2, fs := [''/app/uploads/uu.txt'' \<mapsto> ''world''],
         dials := 6, sleeps := [1, 2, 4, 8], clock := 15, table := [row_a], next_id := 2\<rparr>)"
    using th[THEN conjunct1] by (simp add: info_a_def fun_eq_iff)
  have prem: "two_texts = [?a] @ ?b # [] \<and> length [info_a] = length [?a]
      \<and> int (length (content ?b)) \<le> MAX_FILE_SIZE
      \<and> lower (suffix (filename ?b)) \<in> ALLOWED_EXTENSIONS
      \<and> upload_path (uuids outage_world (drawn outage_world + length [?a])
            @ lower (suffix (filename ?b))) \<notin> info_file_path ` set [info_a]"
    by (simp add: two_texts_def MAX_FILE_SIZE_def suffixes allowed o paths info_a_def)
  have "fs (snd (upload_files plain_runtime two_texts ''s1'' outage_world))
          (upload_path (uuids outage_world (drawn outage_world + length [?a])
             @ lower (suffix (filename ?b))))
        = Some (content ?b)"
    using th[THEN conjunct2, THEN conjunct2, rule_format, of "[?a]" ?b "[]"] prem by blast
  then have stays: "fs (snd (upload_files plain_runtime two_texts ''s1'' outage_world))
          ''/app/uploads/uu.txt'' = Some ''world''"
    by (simp add: o suffixes paths)
  show ?thesis using up stays by simp
qed

end
